theory Spec2Isabelle
  imports Complex_Main "HOL-Library.Word"
begin

unbundle bit_operations_syntax

section \<open>Earth Engine values at one pixel\<close>

text \<open>
  The script \<^verbatim>\<open>src/gee/lai_state_monthly_export.js\<close> builds Earth Engine images. An image
  is modelled at one pixel location: every band holds a number there or is masked
  (\<open>None\<close>). Numbers are reals: the 32-bit and 64-bit floating-point rounding of the
  platform is not modelled. Bands that hold the result of a comparison or of a logical
  operator (0 or 1 in Earth Engine) are modelled as masked booleans.
\<close>

type_synonym px = "real option"
type_synonym bpx = "bool option"

datatype error =
    BandNotFound string
  | NotAString string
  | NotANumber string
  | NumberParse string
  | KeyNotFound string
  | YearNotFound int

definition bindE :: "error + 'a \<Rightarrow> ('a \<Rightarrow> error + 'b) \<Rightarrow> error + 'b" where
  "bindE r f = (case r of Inl e \<Rightarrow> Inl e | Inr x \<Rightarrow> f x)"

text \<open>\<^verbatim>\<open>a.op(b)\<close> on two images: the result is masked where either operand is.\<close>

definition lift2 :: "('a \<Rightarrow> 'b \<Rightarrow> 'c) \<Rightarrow> 'a option \<Rightarrow> 'b option \<Rightarrow> 'c option" where
  "lift2 f a b = (case a of None \<Rightarrow> None | Some x \<Rightarrow> (case b of None \<Rightarrow> None | Some y \<Rightarrow> Some (f x y)))"

definition ee_and :: "bpx \<Rightarrow> bpx \<Rightarrow> bpx" where
  "ee_and a b = lift2 (\<lambda>x y. x \<and> y) a b"

definition ee_or :: "bpx \<Rightarrow> bpx \<Rightarrow> bpx" where
  "ee_or a b = lift2 (\<lambda>x y. x \<or> y) a b"

definition ee_not :: "bpx \<Rightarrow> bpx" where
  "ee_not a = map_option Not a"

text \<open>
  \<^verbatim>\<open>image.updateMask(m)\<close>: the pixel stays only where it was unmasked and the mask image is
  unmasked and non-zero.
\<close>

definition updateMask :: "'a option \<Rightarrow> bpx \<Rightarrow> 'a option" where
  "updateMask v m = (if m = Some True then v else None)"

text \<open>
  \<^verbatim>\<open>input.where(test, value)\<close>: where \<open>test\<close> is non-zero the pixel of \<open>value\<close> replaces
  the input pixel; where \<open>test\<close> or \<open>value\<close> is masked the input pixel is kept; a masked
  input pixel stays masked.
\<close>

definition ee_where :: "'a option \<Rightarrow> bpx \<Rightarrow> 'a option \<Rightarrow> 'a option" where
  "ee_where input test val =
     (case input of
        None \<Rightarrow> None
      | Some i \<Rightarrow> (case val of
                    None \<Rightarrow> Some i
                  | Some v \<Rightarrow> if test = Some True then Some v else Some i))"

text \<open>\<^verbatim>\<open>image.unmask(d)\<close>: masked pixels become \<open>d\<close>; the result is unmasked everywhere.\<close>

definition unmask :: "'a \<Rightarrow> 'a option \<Rightarrow> 'a option" where
  "unmask d v = (case v of None \<Rightarrow> Some d | Some x \<Rightarrow> Some x)"

text \<open>
  \<^verbatim>\<open>image.remap(from, to)\<close> without a default value: a value that is not in \<open>from\<close> is
  masked in the result.
\<close>

definition remap :: "real list \<Rightarrow> real list \<Rightarrow> px \<Rightarrow> px" where
  "remap fromL toL v = (case v of None \<Rightarrow> None | Some x \<Rightarrow> map_of (zip fromL toL) x)"

section \<open>Images as band lists with metadata\<close>

datatype property = PNum real | PStr string

record image =
  bands :: "(string \<times> px) list"
  props :: "string \<rightharpoonup> property"

definition bandNames :: "image \<Rightarrow> string list" where
  "bandNames img = map fst (bands img)"

definition ee_String :: "string \<Rightarrow> property option \<Rightarrow> error + string" where
  "ee_String name p = (case p of Some (PStr s) \<Rightarrow> Inr s | _ \<Rightarrow> Inl (NotAString name))"

definition ee_Number :: "string \<Rightarrow> property option \<Rightarrow> error + real" where
  "ee_Number name p = (case p of Some (PNum x) \<Rightarrow> Inr x | _ \<Rightarrow> Inl (NotANumber name))"

definition slice :: "nat \<Rightarrow> nat \<Rightarrow> string \<Rightarrow> string" where
  "slice start stop s = take (stop - start) (drop start s)"

definition digit_value :: "char \<Rightarrow> nat option" where
  "digit_value c =
     map_of [(CHR ''0'', 0), (CHR ''1'', 1), (CHR ''2'', 2), (CHR ''3'', 3), (CHR ''4'', 4),
             (CHR ''5'', 5), (CHR ''6'', 6), (CHR ''7'', 7), (CHR ''8'', 8), (CHR ''9'', 9)] c"

text \<open>
  \<^verbatim>\<open>ee.Number.parse\<close>, on the strings the script gives it: \<^verbatim>\<open>slice(8,9)\<close> has at most one
  character. One decimal digit parses to its value; the empty string and any other
  single character are an error.
\<close>

definition Number_parse :: "string \<Rightarrow> error + real" where
  "Number_parse s =
     (case s of
        [c] \<Rightarrow> (case digit_value c of Some d \<Rightarrow> Inr (real d) | None \<Rightarrow> Inl (NumberParse s))
      | _ \<Rightarrow> Inl (NumberParse s))"

text \<open>\<^verbatim>\<open>ee.Dictionary(d).get(key)\<close> with no default: a missing key is an error.\<close>

definition dict_get :: "(string \<times> 'a) list \<Rightarrow> string \<Rightarrow> error + 'a" where
  "dict_get d k = (case map_of d k of None \<Rightarrow> Inl (KeyNotFound k) | Some v \<Rightarrow> Inr v)"

text \<open>\<^verbatim>\<open>image.select(name)\<close> of one band: a name that matches no band is an error.\<close>

definition band :: "string \<Rightarrow> image \<Rightarrow> error + px" where
  "band n img = (case map_of (bands img) n of None \<Rightarrow> Inl (BandNotFound n) | Some v \<Rightarrow> Inr v)"

fun select_bands :: "string list \<Rightarrow> image \<Rightarrow> error + px list" where
  "select_bands [] img = Inr []"
| "select_bands (n # ns) img =
     bindE (band n img) (\<lambda>v. bindE (select_bands ns img) (\<lambda>vs. Inr (v # vs)))"

text \<open>\<^verbatim>\<open>image.select(from, to)\<close>: the bands named in \<open>from\<close>, in that order, renamed to \<open>to\<close>.\<close>

definition select :: "string list \<Rightarrow> string list \<Rightarrow> image \<Rightarrow> error + image" where
  "select fromL toL img =
     bindE (select_bands fromL img) (\<lambda>vs. Inr (img\<lparr>bands := zip toL vs\<rparr>))"

text \<open>
  \<^verbatim>\<open>dst.addBands(src)\<close>: the bands of \<open>src\<close> after those of \<open>dst\<close>. The script only adds
  bands whose names are new, so the renaming of clashing names is not modelled.
\<close>

definition addBands :: "image \<Rightarrow> (string \<times> px) list \<Rightarrow> image" where
  "addBands dst src = dst\<lparr>bands := bands dst @ src\<rparr>"

definition map_bands :: "(px \<Rightarrow> px) \<Rightarrow> image \<Rightarrow> image" where
  "map_bands f img = img\<lparr>bands := map (\<lambda>(n, v). (n, f v)) (bands img)\<rparr>"

section \<open>Reflectance normalisation and scene preparation\<close>

definition bandsL8 :: "string list" where
  "bandsL8 = [''SR_B2'', ''SR_B3'', ''SR_B4'', ''SR_B5'', ''SR_B6'', ''SR_B7'', ''QA_PIXEL'']"

definition bandsL57 :: "string list" where
  "bandsL57 = [''SR_B1'', ''SR_B2'', ''SR_B3'', ''SR_B4'', ''SR_B5'', ''SR_B7'', ''QA_PIXEL'']"

definition bandsTo :: "string list" where
  "bandsTo = [''blue'', ''green'', ''red'', ''nir'', ''swir1'', ''swir2'', ''pixel_qa'']"

definition spacecraft_no :: "image \<Rightarrow> error + real" where
  "spacecraft_no img =
     bindE (ee_String ''SPACECRAFT_ID'' (props img ''SPACECRAFT_ID''))
       (\<lambda>spacecraft. Number_parse (slice 8 9 spacecraft))"

definition renameLandsat :: "image \<Rightarrow> error + image" where
  "renameLandsat img =
     bindE (spacecraft_no img) (\<lambda>no.
       let isL8or9 = (no \<ge> 8);
           fromL = (if isL8or9 then bandsL8 else bandsL57)
       in bindE (select fromL bandsTo img) (\<lambda>r.
            Inr (r\<lparr>props := (props r)(''SPACECRAFT_NO'' \<mapsto> PNum no)\<rparr>)))"

definition scaleLandsat :: "image \<Rightarrow> error + image" where
  "scaleLandsat img =
     bindE (select [''green'', ''red'', ''nir'', ''swir1''] [''green'', ''red'', ''nir'', ''swir1''] img)
       (\<lambda>sr. bindE (select [''pixel_qa''] [''pixel_qa''] img)
          (\<lambda>qa. Inr (addBands
                 (map_bands (map_option (\<lambda>x. (x * 0.0000275 + (- 0.2)) / 0.0001)) sr)
                 (bands qa))))"

text \<open>The first two steps of \<^verbatim>\<open>processLandsat\<close>: its local \<^verbatim>\<open>rescaled_image\<close>.\<close>

definition rescaled_image :: "image \<Rightarrow> error + image" where
  "rescaled_image img = bindE (renameLandsat img) scaleLandsat"

text \<open>
  \<^verbatim>\<open>pixel_qa\<close> is an integer band; the bit tests read the integer part of its value.
\<close>

definition maskLandsat :: "image \<Rightarrow> error + image" where
  "maskLandsat img =
     bindE (band ''pixel_qa'' img) (\<lambda>qa.
       let cloud = map_option (\<lambda>q. (\<lfloor>q\<rfloor> AND push_bit 3 1) \<noteq> 0) qa;
           shadow = map_option (\<lambda>q. (\<lfloor>q\<rfloor> AND push_bit 4 1) \<noteq> 0) qa;
           water = map_option (\<lambda>q. (\<lfloor>q\<rfloor> AND push_bit 7 1) \<noteq> 0) qa
       in Inr (map_bands
                 (\<lambda>v. updateMask (updateMask (updateMask v (ee_not cloud)) (ee_not shadow)) (ee_not water))
                 img))"

text \<open>
  The two indices of \<^verbatim>\<open>getVIs\<close>. A quotient with denominator 0 is 0 in HOL; what Earth
  Engine yields there is not modelled, and no result below depends on the value of an
  index.
\<close>

definition getVIs :: "image \<Rightarrow> error + image" where
  "getVIs img =
     bindE (band ''nir'' img) (\<lambda>nir.
     bindE (band ''red'' img) (\<lambda>red.
     bindE (band ''swir1'' img) (\<lambda>swir1.
       let NDVI = lift2 (/) (lift2 (-) nir red) (lift2 (+) nir red);
           NDWI = lift2 (/) (lift2 (-) nir swir1) (lift2 (+) nir swir1)
       in Inr (addBands (addBands img [(''NDVI'', NDVI)]) [(''NDWI'', NDWI)]))))"

text \<open>
  The illumination geometry of \<^verbatim>\<open>processLandsat\<close>. \<^verbatim>\<open>ee.Algorithms.If\<close> is modelled as the
  conditional it documents: only the selected alternative decides the result.
\<close>

definition solarZenith :: "(string \<rightharpoonup> property) \<Rightarrow> error + real" where
  "solarZenith ps =
     (if ''SUN_ELEVATION'' \<in> dom ps
      then bindE (ee_Number ''SUN_ELEVATION'' (ps ''SUN_ELEVATION''))
             (\<lambda>sunElevation. Inr (90 - sunElevation))
      else if ''SOLAR_ZENITH_ANGLE'' \<in> dom ps
      then ee_Number ''SOLAR_ZENITH_ANGLE'' (ps ''SOLAR_ZENITH_ANGLE'')
      else Inr 45)"

definition solarAzimuth :: "(string \<rightharpoonup> property) \<Rightarrow> error + real" where
  "solarAzimuth ps =
     (if ''SUN_AZIMUTH'' \<in> dom ps
      then ee_Number ''SUN_AZIMUTH'' (ps ''SUN_AZIMUTH'')
      else if ''SOLAR_AZIMUTH_ANGLE'' \<in> dom ps
      then ee_Number ''SOLAR_AZIMUTH_ANGLE'' (ps ''SOLAR_AZIMUTH_ANGLE'')
      else Inr 180)"

definition processLandsat :: "image \<Rightarrow> error + image" where
  "processLandsat img =
     bindE (renameLandsat img) (\<lambda>renamed.
     bindE (scaleLandsat renamed) (\<lambda>rescaled.
     bindE (maskLandsat rescaled) (\<lambda>masked.
     bindE (getVIs masked) (\<lambda>final_image.
     bindE (solarZenith (props img)) (\<lambda>sz.
     bindE (solarAzimuth (props img)) (\<lambda>sa.
       Inr (final_image\<lparr>props :=
              (props img)(''SOLAR_AZIMUTH_ANGLE'' \<mapsto> PNum sa, ''SOLAR_ZENITH_ANGLE'' \<mapsto> PNum sz)\<rparr>)))))))"

section \<open>The training image at one pixel\<close>

text \<open>
  \<open>landsat_px\<close>: the seven bands of the image \<^verbatim>\<open>processLandsat\<close> returns, at one pixel.
  \<open>train_px\<close>: the same with the six bands \<^verbatim>\<open>getTrainImg\<close> adds; the band \<^verbatim>\<open>mask\<close> is the
  field \<open>mask_b\<close>.
\<close>

record landsat_px =
  green :: px
  red :: px
  nir :: px
  swir1 :: px
  pixel_qa :: px
  NDVI :: px
  NDWI :: px

record train_px = landsat_px +
  biome2 :: px
  lon :: px
  lat :: px
  sun_zenith :: px
  sun_azimuth :: px
  mask_b :: px

definition landsat_px_of :: "image \<Rightarrow> error + landsat_px" where
  "landsat_px_of img =
     bindE (band ''green'' img) (\<lambda>g.
     bindE (band ''red'' img) (\<lambda>r.
     bindE (band ''nir'' img) (\<lambda>n.
     bindE (band ''swir1'' img) (\<lambda>s.
     bindE (band ''pixel_qa'' img) (\<lambda>q.
     bindE (band ''NDVI'' img) (\<lambda>vi.
     bindE (band ''NDWI'' img) (\<lambda>wi.
       Inr \<lparr>green = g, red = r, nir = n, swir1 = s, pixel_qa = q, NDVI = vi, NDWI = wi\<rparr>)))))))"

definition fromList :: "real list" where
  "fromList = [11,12,21,22,23,24,31,41,42,43,51,52,71,72,73,74,81,82,90,95]"

definition toList :: "real list" where
  "toList = [0, 0, 0, 0, 0, 0, 0, 1, 2, 3, 0, 4, 5, 0, 0, 0, 5, 6, 7, 8]"

text \<open>The local \<^verbatim>\<open>biome\<close> of \<^verbatim>\<open>getTrainImg\<close>, from the land-cover code of the NLCD epoch.\<close>

definition biome :: "px \<Rightarrow> px" where
  "biome landcover = remap fromList toList landcover"

text \<open>
  The bands \<^verbatim>\<open>getTrainImg\<close> adds to the processed scene. The NLCD images and the
  coordinates of the pixel come from outside the script: the land-cover code at the
  pixel, in the image of the epoch the script selects for the scene's year, and the
  coordinates are parameters. The two constant solar bands are unmasked everywhere.
\<close>

definition getTrainImg_px ::
  "landsat_px \<Rightarrow> px \<Rightarrow> real \<Rightarrow> real \<Rightarrow> real \<Rightarrow> real \<Rightarrow> train_px" where
  "getTrainImg_px p landcover longitude latitude sunZenith sunAzimuth =
     (let mask_img = map_option (\<lambda>q. q * 0) (pixel_qa p)
      in \<lparr>green = green p, red = red p, nir = nir p, swir1 = swir1 p, pixel_qa = pixel_qa p,
          NDVI = NDVI p, NDWI = NDWI p,
          biome2 = biome landcover,
          lon = map_option (\<lambda>m. m + longitude) mask_img,
          lat = map_option (\<lambda>m. m + latitude) mask_img,
          sun_zenith = Some sunZenith,
          sun_azimuth = Some sunAzimuth,
          mask_b = map_option (\<lambda>m. m + 1) mask_img\<rparr>)"

text \<open>
  \<^verbatim>\<open>ee.Date(millis).get('year')\<close>: the year of the proleptic Gregorian calendar, in UTC,
  of a time given in milliseconds since 1970-01-01.
\<close>

definition year_of_millis :: "real \<Rightarrow> int" where
  "year_of_millis ms =
     (let z = \<lfloor>ms / 86400000\<rfloor> + 719468;
          era = z div 146097;
          doe = z mod 146097;
          yoe = (doe - doe div 1460 + doe div 36524 - doe div 146096) div 365;
          doy = doe - (365 * yoe + yoe div 4 - yoe div 100);
          mp = (5 * doy + 2) div 153
      in yoe + era * 400 + (if mp < 10 then 0 else 1))"

text \<open>
  The dictionary \<^verbatim>\<open>nlcd_dict\<close>, keyed by the year (the script keys it by the year printed
  in decimal), and the local \<^verbatim>\<open>nlcd_year\<close>: a scene without a numeric
  \<^verbatim>\<open>system:time_start\<close> or of a year outside 1984 to 2024 is an error.
\<close>

definition nlcd_dict :: "(int \<times> int) list" where
  "nlcd_dict =
     [(1984, 2001), (1985, 2001), (1986, 2001), (1987, 2001), (1988, 2001), (1989, 2001),
      (1990, 2001), (1991, 2001), (1992, 2001), (1993, 2001), (1994, 2001), (1995, 2001),
      (1996, 2001), (1997, 2001), (1998, 2001), (1999, 2001), (2000, 2001), (2001, 2001),
      (2002, 2001),
      (2003, 2004), (2004, 2004), (2005, 2004),
      (2006, 2006), (2007, 2006),
      (2008, 2008), (2009, 2008),
      (2010, 2011), (2011, 2011), (2012, 2011),
      (2013, 2013), (2014, 2013),
      (2015, 2016), (2016, 2016), (2017, 2016),
      (2018, 2019), (2019, 2019), (2020, 2019), (2021, 2021), (2022, 2021), (2023, 2021),
      (2024, 2021)]"

definition nlcd_year :: "image \<Rightarrow> error + int" where
  "nlcd_year img =
     bindE (ee_Number ''system:time_start'' (props img ''system:time_start'')) (\<lambda>ms.
       let year = year_of_millis ms
       in (case map_of nlcd_dict year of None \<Rightarrow> Inl (YearNotFound year) | Some e \<Rightarrow> Inr e))"

text \<open>
  \<^verbatim>\<open>getTrainImg(image)\<close> at one pixel. \<open>landcover\<close> is the land-cover code at the pixel in
  the NLCD image of the epoch \<^verbatim>\<open>nlcd_year\<close>; the property \<^verbatim>\<open>nlcd_year\<close> the script sets on
  the result is not kept.
\<close>

definition getTrainImg :: "image \<Rightarrow> px \<Rightarrow> real \<Rightarrow> real \<Rightarrow> error + train_px" where
  "getTrainImg img landcover longitude latitude =
     bindE (nlcd_year img) (\<lambda>epoch.
     bindE (processLandsat img) (\<lambda>processed.
     bindE (landsat_px_of processed) (\<lambda>p.
     bindE (ee_Number ''SOLAR_ZENITH_ANGLE'' (props processed ''SOLAR_ZENITH_ANGLE'')) (\<lambda>sunZenith.
     bindE (ee_Number ''SOLAR_AZIMUTH_ANGLE'' (props processed ''SOLAR_AZIMUTH_ANGLE'')) (\<lambda>sunAzimuth.
       Inr (getTrainImg_px p landcover longitude latitude sunZenith sunAzimuth))))))"

section \<open>The QA band\<close>

definition gte :: "px \<Rightarrow> real \<Rightarrow> bpx" where
  "gte v c = map_option (\<lambda>x. c \<le> x) v"

definition lt :: "px \<Rightarrow> real \<Rightarrow> bpx" where
  "lt v c = map_option (\<lambda>x. x < c) v"

definition lte :: "px \<Rightarrow> real \<Rightarrow> bpx" where
  "lte v c = map_option (\<lambda>x. x \<le> c) v"

definition ee_eq :: "px \<Rightarrow> real \<Rightarrow> bpx" where
  "ee_eq v c = map_option (\<lambda>x. x = c) v"

definition neq :: "px \<Rightarrow> real \<Rightarrow> bpx" where
  "neq v c = map_option (\<lambda>x. x \<noteq> c) v"

definition red_max :: real where "red_max = 5100"
definition green_max :: real where "green_max = 5100"
definition nir_max :: real where "nir_max = 7100"
definition swir1_max :: real where "swir1_max = 7100"
definition lai_max :: real where "lai_max = 8"

text \<open>
  The convex-hull asset of one sensor after \<^verbatim>\<open>reshape([10,10,10,10])\<close>: the entry at a
  position (red, green, nir, swir1). The asset is not part of the script.
\<close>

type_synonym hull_array = "int \<Rightarrow> int \<Rightarrow> int \<Rightarrow> int \<Rightarrow> int"

text \<open>One band of the local \<^verbatim>\<open>image_scaled\<close>: \<^verbatim>\<open>.divide(max).multiply(10).floor().toInt()\<close>.\<close>

definition image_scaled :: "px \<Rightarrow> real \<Rightarrow> int option" where
  "image_scaled v vmax = map_option (\<lambda>x. \<lfloor>x / vmax * 10\<rfloor>) v"

definition range_mask :: "'a train_px_scheme \<Rightarrow> bpx" where
  "range_mask landsat =
     ee_and (ee_and (ee_and (ee_and (ee_and (ee_and (ee_and
       (gte (red landsat) 0)
       (lt (red landsat) red_max))
       (gte (green landsat) 0))
       (lt (green landsat) green_max))
       (gte (nir landsat) 0))
       (lt (nir landsat) nir_max))
       (gte (swir1 landsat) 0))
       (lt (swir1 landsat) swir1_max)"

definition hull_image :: "hull_array \<Rightarrow> 'a train_px_scheme \<Rightarrow> hull_array option" where
  "hull_image hull_array_reshape landsat =
     updateMask (map_option (\<lambda>_. hull_array_reshape) (image_scaled (red landsat) red_max))
       (range_mask landsat)"

text \<open>\<^verbatim>\<open>arrayImage.arrayGet(position)\<close>: masked where the array or a coordinate is masked.\<close>

definition arrayGet :: "hull_array option \<Rightarrow> int option \<Rightarrow> int option \<Rightarrow> int option \<Rightarrow> int option \<Rightarrow> int option" where
  "arrayGet a r g n s =
     Option.bind a (\<lambda>h. Option.bind r (\<lambda>i. Option.bind g (\<lambda>j. Option.bind n (\<lambda>k.
       Option.bind s (\<lambda>l. Some (h i j k l))))))"

definition in_mask :: "hull_array \<Rightarrow> 'a train_px_scheme \<Rightarrow> 8 word option" where
  "in_mask hull_array_reshape landsat =
     map_option (\<lambda>x. of_bool (x = 0))
       (unmask 0
          (arrayGet (hull_image hull_array_reshape landsat)
             (updateMask (image_scaled (red landsat) red_max) (range_mask landsat))
             (updateMask (image_scaled (green landsat) green_max) (range_mask landsat))
             (updateMask (image_scaled (nir landsat) nir_max) (range_mask landsat))
             (updateMask (image_scaled (swir1 landsat) swir1_max) (range_mask landsat))))"

definition out_mask :: "px \<Rightarrow> 32 word option" where
  "out_mask lai = map_option of_bool (ee_not (ee_and (gte lai 0) (lte lai lai_max)))"

definition biome_mask :: "'a train_px_scheme \<Rightarrow> 32 word option" where
  "biome_mask landsat = map_option of_bool (ee_eq (biome2 landsat) 0)"

text \<open>
  \<^verbatim>\<open>getLAIQA(landsat, sensor, lai)\<close>. The byte \<^verbatim>\<open>in_mask\<close> is widened to the 32-bit type of
  the other two operands by \<^verbatim>\<open>bitwiseOr\<close>; \<^verbatim>\<open>toByte\<close> narrows the result.
\<close>

definition getLAIQA :: "(string \<Rightarrow> hull_array) \<Rightarrow> 'a train_px_scheme \<Rightarrow> string \<Rightarrow> px \<Rightarrow> 8 word option" where
  "getLAIQA hull_table landsat sensor lai =
     (let qa_band =
            lift2 (OR)
              (lift2 (OR)
                 (map_option ucast (in_mask (hull_table sensor) landsat))
                 (map_option (push_bit 1) (out_mask lai)))
              (map_option (push_bit 2) (biome_mask landsat))
      in map_option ucast qa_band)"

section \<open>Per-scene LAI retrieval\<close>

text \<open>
  A number as the client-side script holds it: a JavaScript number, or a server-side
  \<^verbatim>\<open>ee.Number\<close> object that wraps one. The JavaScript comparison \<^verbatim>\<open>x > c\<close> converts an
  object to a number first; an \<^verbatim>\<open>ee.Number\<close> object converts to NaN, and every comparison
  with NaN is false.
\<close>

datatype js_num = JSNumber real | EENumber real

definition js_gt :: "js_num \<Rightarrow> real \<Rightarrow> bool" where
  "js_gt x c = (case x of JSNumber a \<Rightarrow> c < a | EENumber a \<Rightarrow> False)"

definition ee_value :: "js_num \<Rightarrow> real" where
  "ee_value x = (case x of JSNumber a \<Rightarrow> a | EENumber a \<Rightarrow> a)"

text \<open>
  One feature of the training asset: its sensor, its biome, the ten input properties in
  the order of the script's list \<^verbatim>\<open>features\<close>, and the LAI to predict. A regressor maps
  the ten inputs to a predicted LAI.
\<close>

record sample =
  s_sensor :: string
  s_biome2 :: real
  s_inputs :: "real list"
  s_MCD_LAI :: real

type_synonym regressor = "real list \<Rightarrow> real"

text \<open>
  \<^verbatim>\<open>getRFModel(sensor, biome)\<close>. The training of the random forest and the training asset
  are outside the script and are parameters: \<open>smileRandomForest\<close> maps the training
  features to the trained regressor.
\<close>

definition getRFModel ::
  "(sample list \<Rightarrow> regressor) \<Rightarrow> sample list \<Rightarrow> string \<Rightarrow> js_num \<Rightarrow> regressor" where
  "getRFModel smileRandomForest asset sensor biome_no =
     (let train = filter (\<lambda>s. s_sensor s = sensor) asset;
          train2 = (if js_gt biome_no 0
                    then filter (\<lambda>s. s_biome2 s = ee_value biome_no) train
                    else train)
      in smileRandomForest train2)"

definition features :: "'a train_px_scheme \<Rightarrow> px list" where
  "features t = [red t, green t, nir t, swir1 t, lat t, lon t, NDVI t, NDWI t, sun_zenith t, sun_azimuth t]"

text \<open>\<^verbatim>\<open>image.classify(model)\<close>: masked where a feature band is masked.\<close>

definition classify :: "px list \<Rightarrow> (real list \<Rightarrow> real) \<Rightarrow> px" where
  "classify inputs rf_model =
     (if list_all (\<lambda>v. v \<noteq> None) inputs then Some (rf_model (map the inputs)) else None)"

definition getLAIforBiome :: "'a train_px_scheme \<Rightarrow> (real list \<Rightarrow> real) \<Rightarrow> real \<Rightarrow> px" where
  "getLAIforBiome t rf_model b =
     classify (map (\<lambda>v. updateMask v (ee_eq (biome2 t) b)) (features t)) rf_model"

definition biomes :: "bool \<Rightarrow> real list" where
  "biomes nonveg = (if nonveg then [0,1,2,3,4,5,6,7,8] else [1,2,3,4,5,6,7,8])"

text \<open>The initial \<^verbatim>\<open>lai_img\<close>: the sentinel 9999 wherever the band \<^verbatim>\<open>mask\<close> is unmasked.\<close>

definition lai_img_init :: "'a train_px_scheme \<Rightarrow> px" where
  "lai_img_init train_img = map_option (\<lambda>m. m * 0 + 9999) (mask_b train_img)"

text \<open>
  One round of the \<^verbatim>\<open>biomes.forEach\<close> loop, and the loop. The round wraps the biome in
  \<^verbatim>\<open>ee.Number\<close> before it passes it on.
\<close>

definition lai_img_step ::
  "(sample list \<Rightarrow> regressor) \<Rightarrow> sample list \<Rightarrow> string \<Rightarrow> 'a train_px_scheme \<Rightarrow> real \<Rightarrow> px \<Rightarrow> px" where
  "lai_img_step smileRandomForest asset sensor train_img b lai_img =
     (let biome_no = EENumber b
      in ee_where lai_img (ee_eq (biome2 train_img) (ee_value biome_no))
           (getLAIforBiome train_img (getRFModel smileRandomForest asset sensor biome_no)
              (ee_value biome_no)))"

definition lai_img_loop ::
  "(sample list \<Rightarrow> regressor) \<Rightarrow> sample list \<Rightarrow> string \<Rightarrow> 'a train_px_scheme \<Rightarrow> real list \<Rightarrow> px" where
  "lai_img_loop smileRandomForest asset sensor train_img bs =
     fold (lai_img_step smileRandomForest asset sensor train_img) bs (lai_img_init train_img)"

text \<open>\<^verbatim>\<open>lai_img.updateMask(lai_img.neq(9999))\<close>.\<close>

definition lai_img_final ::
  "(sample list \<Rightarrow> regressor) \<Rightarrow> sample list \<Rightarrow> string \<Rightarrow> 'a train_px_scheme \<Rightarrow> bool \<Rightarrow> px" where
  "lai_img_final smileRandomForest asset sensor train_img nonveg =
     (let lai_img = lai_img_loop smileRandomForest asset sensor train_img (biomes nonveg)
      in updateMask lai_img (neq lai_img 9999))"

section \<open>LAI storage\<close>

text \<open>
  The LAI band is of type double and \<^verbatim>\<open>multiply(100)\<close> is a multiplication of doubles: its
  result is the exact product rounded to the nearest double, a tie going to the even
  significand. \<open>dbl\<close> is that rounding for the normal range of doubles (53 significant
  bits; overflow and subnormal numbers are not modelled): \<open>dbl_exp x\<close> is the binary
  exponent of \<open>x\<close>, found by halving or doubling, and \<open>rne\<close> rounds to the nearest
  integer, a tie going to the even one.
\<close>

fun exp_up :: "nat \<Rightarrow> real \<Rightarrow> int" where
  "exp_up 0 a = 0"
| "exp_up (Suc n) a = (if 2 \<le> a then exp_up n (a / 2) + 1 else 0)"

fun exp_down :: "nat \<Rightarrow> real \<Rightarrow> int" where
  "exp_down 0 a = 0"
| "exp_down (Suc n) a = (if a < 1 then exp_down n (a * 2) - 1 else 0)"

definition dbl_exp :: "real \<Rightarrow> int" where
  "dbl_exp x = (if 1 \<le> \<bar>x\<bar> then exp_up 1100 \<bar>x\<bar> else exp_down 1100 \<bar>x\<bar>)"

definition rne :: "real \<Rightarrow> int" where
  "rne y =
     (let f = \<lfloor>y\<rfloor>
      in if y - of_int f < 1 / 2 then f
         else if 1 / 2 < y - of_int f then f + 1
         else if even f then f else f + 1)"

definition dbl :: "real \<Rightarrow> real" where
  "dbl x =
     (if x = 0 then 0
      else let u = 2 powi (dbl_exp x - 52)
           in of_int (rne (x / u)) * u)"

text \<open>
  \<^verbatim>\<open>.multiply(100).round().clamp(0,65535).uint16()\<close> of \<^verbatim>\<open>getLAIImage\<close>. \<^verbatim>\<open>round\<close> is to
  the nearest integer, a tie going up.
\<close>

definition LAI_encode :: "real \<Rightarrow> 16 word" where
  "LAI_encode v = word_of_int (max 0 (min 65535 (round (dbl (v * 100)))))"

definition LAI_scale_factor :: real where
  "LAI_scale_factor = 0.01"

definition LAI_decode :: "16 word \<Rightarrow> real" where
  "LAI_decode w = real (unat w) * LAI_scale_factor"

text \<open>The two bands of the image \<^verbatim>\<open>getLAIImage\<close> returns, at one pixel.\<close>

record lai_px =
  LAI :: "16 word option"
  QA :: "8 word option"

definition getLAIImage_px ::
  "(sample list \<Rightarrow> regressor) \<Rightarrow> sample list \<Rightarrow> (string \<Rightarrow> hull_array) \<Rightarrow> string
     \<Rightarrow> 'a train_px_scheme \<Rightarrow> bool \<Rightarrow> lai_px" where
  "getLAIImage_px smileRandomForest asset hull_table sensor train_img nonveg =
     (let lai_img = lai_img_final smileRandomForest asset sensor train_img nonveg;
          qa = getLAIQA hull_table train_img sensor lai_img
      in \<lparr>LAI = map_option LAI_encode lai_img, QA = qa\<rparr>)"

definition satDigit :: "image \<Rightarrow> error + string" where
  "satDigit img =
     bindE (ee_String ''SPACECRAFT_ID'' (props img ''SPACECRAFT_ID'')) (\<lambda>s. Inr (slice 8 9 s))"

definition sensor_dict :: "(string \<times> string) list" where
  "sensor_dict = [(''5'', ''LT05''), (''7'', ''LE07''), (''8'', ''LC08''), (''9'', ''LC08'')]"

definition sensor :: "image \<Rightarrow> error + string" where
  "sensor img = bindE (satDigit img) (dict_get sensor_dict)"

text \<open>
  \<^verbatim>\<open>getLAIImage(image, nonveg)\<close> at one pixel: an error of the sensor lookup or of the
  scene preparation is an error of the whole retrieval.
\<close>

definition getLAIImage ::
  "(sample list \<Rightarrow> regressor) \<Rightarrow> sample list \<Rightarrow> (string \<Rightarrow> hull_array) \<Rightarrow> image
     \<Rightarrow> px \<Rightarrow> real \<Rightarrow> real \<Rightarrow> bool \<Rightarrow> error + lai_px" where
  "getLAIImage smileRandomForest asset hull_table img landcover longitude latitude nonveg =
     bindE (sensor img) (\<lambda>s.
     bindE (getTrainImg img landcover longitude latitude) (\<lambda>train_img.
       Inr (getLAIImage_px smileRandomForest asset hull_table s train_img nonveg)))"

section \<open>Monthly composite\<close>

definition validMaskFromQA :: "8 word option \<Rightarrow> bpx" where
  "validMaskFromQA qa =
     (let bad_input = map_option (\<lambda>q. (q AND 1) \<noteq> 0) qa;
          bad_lai = map_option (\<lambda>q. (q AND 2) \<noteq> 0) qa
      in ee_not (ee_or bad_input bad_lai))"

text \<open>
  The locals of \<^verbatim>\<open>buildMonthlyLAI\<close> at one pixel, over the per-scene images of the month
  (\<open>laiColl_img\<close> is the function mapped over the scenes).
  \<open>ee_count\<close> is the number of images with a valid mask at the pixel, which is what
  \<^verbatim>\<open>ImageCollection.count\<close> counts; the mask of the count band itself is not modelled.
\<close>

definition laiColl_img :: "lai_px \<Rightarrow> 16 word option" where
  "laiColl_img laiImg =
     (let qa = QA laiImg;
          valid = validMaskFromQA qa
      in updateMask (LAI laiImg) valid)"

definition laiColl :: "lai_px list \<Rightarrow> 16 word option list" where
  "laiColl lstack = map laiColl_img lstack"

definition empty_img :: "16 word option" where
  "empty_img = updateMask (Some 0) (Some False)"

definition safeColl :: "lai_px list \<Rightarrow> 16 word option list" where
  "safeColl lstack = (if 0 < length (laiColl lstack) then laiColl lstack else [empty_img])"

definition ee_count :: "'a option list \<Rightarrow> nat" where
  "ee_count stack = length (filter (\<lambda>v. v \<noteq> None) stack)"

definition obs_count :: "lai_px list \<Rightarrow> nat" where
  "obs_count lstack = ee_count (safeColl lstack)"

section \<open>Example inputs\<close>

text \<open>
  A clear Landsat 8 pixel of 15 July 2000 and a clear Landsat 4 pixel with their scene
  metadata.
\<close>

definition scene_L8 :: image where
  "scene_L8 =
     \<lparr>bands = [(''SR_B1'', Some 8000), (''SR_B2'', Some 8500), (''SR_B3'', Some 9000),
               (''SR_B4'', Some 9500), (''SR_B5'', Some 16000), (''SR_B6'', Some 12000),
               (''SR_B7'', Some 10000), (''QA_PIXEL'', Some 21824)],
      props = [''SPACECRAFT_ID'' \<mapsto> PStr ''LANDSAT_8'', ''SUN_ELEVATION'' \<mapsto> PNum 60,
               ''SUN_AZIMUTH'' \<mapsto> PNum 150, ''system:time_start'' \<mapsto> PNum 963619200000]\<rparr>"

definition scene_L4 :: image where
  "scene_L4 =
     \<lparr>bands = [(''SR_B1'', Some 8000), (''SR_B2'', Some 8500), (''SR_B3'', Some 9000),
               (''SR_B4'', Some 16000), (''SR_B5'', Some 12000), (''SR_B7'', Some 10000),
               (''QA_PIXEL'', Some 5440)],
      props = [''SPACECRAFT_ID'' \<mapsto> PStr ''LANDSAT_4'']\<rparr>"

text \<open>
  A clear forest pixel of a training image, a processed Landsat pixel, a hull table that
  holds the bins whose red coordinate is 5, and a training that returns a constant
  regressor.
\<close>

definition px_forest :: train_px where
  "px_forest =
     \<lparr>green = Some 1000, red = Some 3000, nir = Some 4000, swir1 = Some 2000, pixel_qa = Some 5440,
      NDVI = Some (1 / 7), NDWI = Some (1 / 3),
      biome2 = Some 1, lon = Some (- 90), lat = Some 40,
      sun_zenith = Some 30, sun_azimuth = Some 150, mask_b = Some 1\<rparr>"

definition hull_red5 :: "string \<Rightarrow> hull_array" where
  "hull_red5 s i j k l = (if i = 5 then 1 else 0)"

definition rf_const :: "real \<Rightarrow> sample list \<Rightarrow> regressor" where
  "rf_const v train f = v"

text \<open>
  A training asset of three features, and a training that returns the regressor
  predicting the mean LAI of its training features.
\<close>

definition asset3 :: "sample list" where
  "asset3 =
     [\<lparr>s_sensor = ''LC08'', s_biome2 = 1, s_inputs = [], s_MCD_LAI = 1\<rparr>,
      \<lparr>s_sensor = ''LC08'', s_biome2 = 2, s_inputs = [], s_MCD_LAI = 5\<rparr>,
      \<lparr>s_sensor = ''LE07'', s_biome2 = 1, s_inputs = [], s_MCD_LAI = 2\<rparr>]"

definition rf_mean :: "sample list \<Rightarrow> regressor" where
  "rf_mean train f = sum_list (map s_MCD_LAI train) / real (length train)"

text \<open>The double nearest to 0.015.\<close>

definition d0015 :: real where
  "d0015 = 1080863910568919 / 2 ^ 56"

definition px_clear :: landsat_px where
  "px_clear =
     \<lparr>green = Some 1000, red = Some 3000, nir = Some 4000, swir1 = Some 2000, pixel_qa = Some 5440,
      NDVI = Some (1 / 7), NDWI = Some (1 / 3)\<rparr>"

section \<open>Results\<close>

subsection \<open>Error propagation\<close>

lemma bindE_Inr_iff: "bindE r f = Inr y \<longleftrightarrow> (\<exists>x. r = Inr x \<and> f x = Inr y)"
  by (cases r) (simp_all add: bindE_def)

lemma bindE_simps [simp]: "bindE (Inl e) f = Inl e" "bindE (Inr x) f = f x"
  by (simp_all add: bindE_def)

lemmas image_eval =
  spacecraft_no_def ee_String_def ee_Number_def slice_def Number_parse_def digit_value_def
  renameLandsat_def scaleLandsat_def rescaled_image_def select_def band_def
  bandsL8_def bandsL57_def bandsTo_def addBands_def map_bands_def bandNames_def
  satDigit_def sensor_def sensor_dict_def dict_get_def

lemmas px_eval =
  updateMask_def unmask_def gte_def lt_def lte_def ee_eq_def neq_def ee_and_def ee_or_def
  ee_not_def lift2_def

lemmas qa_eval =
  getLAIQA_def in_mask_def out_mask_def biome_mask_def hull_image_def range_mask_def
  image_scaled_def arrayGet_def px_eval red_max_def green_max_def nir_max_def swir1_max_def
  lai_max_def

lemmas lai_eval =
  getLAIImage_px_def lai_img_final_def lai_img_loop_def lai_img_step_def lai_img_init_def
  biomes_def getLAIforBiome_def classify_def features_def ee_where_def getRFModel_def js_gt_def
  ee_value_def Let_def

subsection \<open>Band names after renaming and rescaling\<close>

lemma select_bands_length: "select_bands ns img = Inr vs \<Longrightarrow> length vs = length ns"
  by (induction ns arbitrary: vs) (auto simp: bindE_Inr_iff)

lemma select_bandNames:
  assumes "select fromL toL img = Inr r" "length toL = length fromL"
  shows "bandNames r = toL"
proof -
  from assms(1) obtain vs where vs: "select_bands fromL img = Inr vs" and r: "r = img\<lparr>bands := zip toL vs\<rparr>"
    by (auto simp: select_def bindE_Inr_iff)
  from vs have "length vs = length toL" using assms(2) by (simp add: select_bands_length)
  then show ?thesis by (simp add: r bandNames_def)
qed

lemma renameLandsat_bandNames: "renameLandsat img = Inr r \<Longrightarrow> bandNames r = bandsTo"
proof -
  assume "renameLandsat img = Inr r"
  then obtain no r0 where s: "select (if 8 \<le> no then bandsL8 else bandsL57) bandsTo img = Inr r0"
      and r: "r = r0\<lparr>props := (props r0)(''SPACECRAFT_NO'' \<mapsto> PNum no)\<rparr>"
    by (auto simp: renameLandsat_def bindE_Inr_iff Let_def)
  have "length bandsTo = length (if 8 \<le> no then bandsL8 else bandsL57)"
    by (simp add: bandsTo_def bandsL8_def bandsL57_def)
  with s have "bandNames r0 = bandsTo" by (rule select_bandNames)
  then show ?thesis by (simp add: r bandNames_def)
qed

lemma scaleLandsat_bandNames:
  "scaleLandsat img = Inr s \<Longrightarrow> bandNames s = [''green'', ''red'', ''nir'', ''swir1'', ''pixel_qa'']"
proof -
  assume "scaleLandsat img = Inr s"
  then obtain sr qa where
      sr: "select [''green'', ''red'', ''nir'', ''swir1''] [''green'', ''red'', ''nir'', ''swir1''] img = Inr sr"
      and qa: "select [''pixel_qa''] [''pixel_qa''] img = Inr qa"
      and s: "s = addBands (map_bands (map_option (\<lambda>x. (x * 0.0000275 + (- 0.2)) / 0.0001)) sr) (bands qa)"
    by (auto simp: scaleLandsat_def bindE_Inr_iff)
  have "bandNames sr = [''green'', ''red'', ''nir'', ''swir1'']"
    using sr by (rule select_bandNames) simp
  moreover have "bandNames qa = [''pixel_qa'']"
    using qa by (rule select_bandNames) simp
  ultimately show ?thesis
    by (simp add: s bandNames_def addBands_def map_bands_def comp_def case_prod_unfold)
qed

lemma band_ok: "n \<in> set (bandNames img) \<Longrightarrow> \<exists>v. band n img = Inr v"
proof -
  assume "n \<in> set (bandNames img)"
  then have "map_of (bands img) n \<noteq> None"
    by (simp add: bandNames_def map_of_eq_None_iff)
  then show ?thesis by (auto simp: band_def)
qed

lemma select_bands_ok: "set ns \<subseteq> set (bandNames img) \<Longrightarrow> \<exists>vs. select_bands ns img = Inr vs"
proof (induction ns)
  case Nil
  then show ?case by simp
next
  case (Cons n ns)
  then obtain v vs where "band n img = Inr v" "select_bands ns img = Inr vs"
    using band_ok [of n img] by auto
  then show ?case by simp
qed

lemma select_ok: "set ns \<subseteq> set (bandNames img) \<Longrightarrow> \<exists>r. select ns toL img = Inr r"
  using select_bands_ok [of ns img] by (auto simp: select_def)

lemma scaleLandsat_ok:
  assumes "bandNames r = bandsTo"
  shows "\<exists>s. scaleLandsat r = Inr s"
proof -
  have "set [''green'', ''red'', ''nir'', ''swir1''] \<subseteq> set (bandNames r)"
       "set [''pixel_qa''] \<subseteq> set (bandNames r)"
    by (simp_all add: assms bandsTo_def)
  then obtain sr qa where
      "select [''green'', ''red'', ''nir'', ''swir1''] [''green'', ''red'', ''nir'', ''swir1''] r = Inr sr"
      "select [''pixel_qa''] [''pixel_qa''] r = Inr qa"
    using select_ok by blast
  then show ?thesis by (simp add: scaleLandsat_def)
qed

lemma renameLandsat_ok:
  assumes "spacecraft_no img = Inr no"
      and "set (if 8 \<le> no then bandsL8 else bandsL57) \<subseteq> set (bandNames img)"
  shows "\<exists>r. renameLandsat img = Inr r"
proof -
  obtain r0 where "select (if 8 \<le> no then bandsL8 else bandsL57) bandsTo img = Inr r0"
    using select_ok [OF assms(2)] by blast
  then show ?thesis using assms(1) by (simp add: renameLandsat_def Let_def)
qed

text \<open>
  Claim C3, amended. Whatever the sensor, an image \<^verbatim>\<open>renameLandsat\<close> returns has exactly
  the seven bands blue, green, red, nir, swir1, swir2, pixel_qa, and the image
  \<^verbatim>\<open>scaleLandsat\<close> makes of it has exactly the five bands green, red, nir, swir1,
  pixel_qa: blue and swir2 are dropped and the QA band is named pixel_qa. Both steps
  succeed on a scene whose spacecraft digit parses and which has the source bands of
  its generation.
\<close>

theorem normalizer_band_names:
  "(renameLandsat img = Inr r \<longrightarrow>
      bandNames r = [''blue'', ''green'', ''red'', ''nir'', ''swir1'', ''swir2'', ''pixel_qa''])
   \<and> (rescaled_image img = Inr s \<longrightarrow>
      bandNames s = [''green'', ''red'', ''nir'', ''swir1'', ''pixel_qa''])
   \<and> (spacecraft_no img = Inr no
        \<and> set (if 8 \<le> no then bandsL8 else bandsL57) \<subseteq> set (bandNames img) \<longrightarrow>
      (\<exists>s'. rescaled_image img = Inr s'))"
proof (intro conjI impI)
  assume "renameLandsat img = Inr r"
  then show "bandNames r = [''blue'', ''green'', ''red'', ''nir'', ''swir1'', ''swir2'', ''pixel_qa'']"
    using renameLandsat_bandNames [of img r] by (simp add: bandsTo_def)
next
  assume "rescaled_image img = Inr s"
  then obtain r where "scaleLandsat r = Inr s"
    by (auto simp: rescaled_image_def bindE_Inr_iff)
  then show "bandNames s = [''green'', ''red'', ''nir'', ''swir1'', ''pixel_qa'']"
    by (rule scaleLandsat_bandNames)
next
  assume h: "spacecraft_no img = Inr no
     \<and> set (if 8 \<le> no then bandsL8 else bandsL57) \<subseteq> set (bandNames img)"
  then obtain r where r: "renameLandsat img = Inr r"
    using renameLandsat_ok [of img no] by blast
  then have "bandNames r = bandsTo" by (rule renameLandsat_bandNames)
  then obtain s' where "scaleLandsat r = Inr s'"
    using scaleLandsat_ok by blast
  with r show "\<exists>s'. rescaled_image img = Inr s'"
    by (simp add: rescaled_image_def)
qed

lemma spacecraft_no_L8: "spacecraft_no scene_L8 = Inr 8"
  by (simp add: spacecraft_no_def scene_L8_def ee_String_def slice_def Number_parse_def digit_value_def)

text \<open>Claim C3, witness: the Landsat 8 example scene.\<close>

theorem normalizer_band_names_witness:
  "spacecraft_no scene_L8 = Inr 8
   \<and> set bandsL8 \<subseteq> set (bandNames scene_L8)
   \<and> (\<exists>r. renameLandsat scene_L8 = Inr r
          \<and> bandNames r = [''blue'', ''green'', ''red'', ''nir'', ''swir1'', ''swir2'', ''pixel_qa''])
   \<and> (\<exists>s. rescaled_image scene_L8 = Inr s
          \<and> bandNames s = [''green'', ''red'', ''nir'', ''swir1'', ''pixel_qa''])"
proof -
  have a: "spacecraft_no scene_L8 = Inr 8" by (rule spacecraft_no_L8)
  have b: "set bandsL8 \<subseteq> set (bandNames scene_L8)"
    by (simp add: bandsL8_def bandNames_def scene_L8_def)
  have "\<exists>s'. rescaled_image scene_L8 = Inr s'"
    using a b normalizer_band_names [where img = scene_L8 and no = 8, THEN conjunct2, THEN conjunct2]
    by simp
  then obtain s where s: "rescaled_image scene_L8 = Inr s" ..
  then have n: "bandNames s = [''green'', ''red'', ''nir'', ''swir1'', ''pixel_qa'']"
    using normalizer_band_names [where img = scene_L8 and s = s] by simp
  from s obtain r where r: "renameLandsat scene_L8 = Inr r"
    by (auto simp: rescaled_image_def bindE_Inr_iff)
  then have m: "bandNames r = [''blue'', ''green'', ''red'', ''nir'', ''swir1'', ''swir2'', ''pixel_qa'']"
    using normalizer_band_names [where img = scene_L8 and r = r] by simp
  from a b s n r m show ?thesis by blast
qed

text \<open>
  Claim C3, counterexample: after renaming and rescaling, the Landsat 8 example scene
  has five bands, and they are not the seven canonical ones.
\<close>

theorem normalizer_drops_blue_swir2:
  "map_sum id bandNames (rescaled_image scene_L8)
     = Inr [''green'', ''red'', ''nir'', ''swir1'', ''pixel_qa'']
   \<and> set [''green'', ''red'', ''nir'', ''swir1'', ''pixel_qa'']
     \<noteq> {''blue'', ''green'', ''red'', ''nir'', ''swir1'', ''swir2'', ''qa''}"
proof -
  have "map_sum id bandNames (rescaled_image scene_L8)
     = Inr [''green'', ''red'', ''nir'', ''swir1'', ''pixel_qa'']"
    by (simp add: image_eval scene_L8_def)
  moreover have "''blue'' \<notin> set [''green'', ''red'', ''nir'', ''swir1'', ''pixel_qa'']" by simp
  then have "set [''green'', ''red'', ''nir'', ''swir1'', ''pixel_qa'']
     \<noteq> {''blue'', ''green'', ''red'', ''nir'', ''swir1'', ''swir2'', ''qa''}" by blast
  ultimately show ?thesis by simp
qed

subsection \<open>Unrecognised sensor identifiers\<close>

lemma dict_get_sensor_dict:
  "d \<notin> {''5'', ''7'', ''8'', ''9''} \<Longrightarrow> dict_get sensor_dict d = Inl (KeyNotFound d)"
  by (simp add: dict_get_def sensor_dict_def)

lemma Number_parse_Inl_iff:
  "(\<exists>e. Number_parse s = Inl e) \<longleftrightarrow> \<not> (\<exists>c. s = [c] \<and> digit_value c \<noteq> None)"
  by (auto simp: Number_parse_def split: list.splits option.splits)

lemma Number_parse_Inl: "Number_parse s = Inl e \<Longrightarrow> e = NumberParse s"
  by (auto simp: Number_parse_def split: list.splits option.splits)

lemma band_missing: "n \<notin> set (bandNames img) \<Longrightarrow> band n img = Inl (BandNotFound n)"
proof -
  assume "n \<notin> set (bandNames img)"
  then have "map_of (bands img) n = None"
    by (simp add: bandNames_def map_of_eq_None_iff)
  then show ?thesis by (simp add: band_def)
qed

lemma select_bands_missing:
  "\<not> set ns \<subseteq> set (bandNames img) \<Longrightarrow>
     \<exists>b. b \<in> set ns \<and> b \<notin> set (bandNames img) \<and> select_bands ns img = Inl (BandNotFound b)"
proof (induction ns)
  case Nil
  then show ?case by simp
next
  case (Cons n ns)
  show ?case
  proof (cases "n \<in> set (bandNames img)")
    case False
    then have "select_bands (n # ns) img = Inl (BandNotFound n)"
      by (simp add: band_missing)
    with False show ?thesis by auto
  next
    case True
    then obtain v where v: "band n img = Inr v"
      using band_ok by blast
    from True Cons.prems have "\<not> set ns \<subseteq> set (bandNames img)" by simp
    then obtain b where "b \<in> set ns" "b \<notin> set (bandNames img)"
        "select_bands ns img = Inl (BandNotFound b)"
      using Cons.IH by blast
    then show ?thesis using v by auto
  qed
qed

lemma satDigit_spacecraft_no:
  "satDigit img = Inr d \<Longrightarrow> spacecraft_no img = Number_parse d"
  "satDigit img = Inl e \<Longrightarrow> spacecraft_no img = Inl e"
  by (auto simp: satDigit_def spacecraft_no_def bindE_def split: sum.splits)

text \<open>
  Claim C6, amended. The per-scene retrieval \<^verbatim>\<open>getLAIImage\<close> fails loudly for every scene
  whose \<^verbatim>\<open>SPACECRAFT_ID\<close> is missing or does not have one of the characters 5, 7, 8, 9 at
  index 8: the sensor lookup raises and no LAI image is produced. \<^verbatim>\<open>renameLandsat\<close> alone
  does not reject an unrecognised digit. It raises when the identifier is missing, when
  the character at index 8 is not a decimal digit, and when the scene lacks a source band
  of the selected mapping; otherwise it succeeds, with the Landsat 5/7 mapping for a
  digit below 8 and the Landsat 8/9 mapping for 8 and 9.
\<close>

theorem unknown_sensor_fails:
  "(satDigit img = Inr d \<and> d \<notin> {''5'', ''7'', ''8'', ''9''} \<longrightarrow>
      getLAIImage tr asset hull_table img landcover longitude latitude nonveg
        = Inl (KeyNotFound d))
   \<and> (satDigit img = Inl e \<longrightarrow>
      getLAIImage tr asset hull_table img landcover longitude latitude nonveg = Inl e
      \<and> renameLandsat img = Inl e)
   \<and> (satDigit img = Inr d \<and> \<not> (\<exists>c. d = [c] \<and> digit_value c \<noteq> None) \<longrightarrow>
      renameLandsat img = Inl (NumberParse d))
   \<and> (satDigit img = Inr [c] \<and> digit_value c = Some n
        \<and> set (if 8 \<le> n then bandsL8 else bandsL57) \<subseteq> set (bandNames img) \<longrightarrow>
      (\<exists>r vs. renameLandsat img = Inr r
          \<and> select_bands (if 8 \<le> n then bandsL8 else bandsL57) img = Inr vs
          \<and> bands r = zip bandsTo vs))
   \<and> (satDigit img = Inr [c] \<and> digit_value c = Some n
        \<and> \<not> set (if 8 \<le> n then bandsL8 else bandsL57) \<subseteq> set (bandNames img) \<longrightarrow>
      (\<exists>b. b \<in> set (if 8 \<le> n then bandsL8 else bandsL57) \<and> b \<notin> set (bandNames img)
          \<and> renameLandsat img = Inl (BandNotFound b)))"
proof (intro conjI impI)
  assume "satDigit img = Inr d \<and> d \<notin> {''5'', ''7'', ''8'', ''9''}"
  then show "getLAIImage tr asset hull_table img landcover longitude latitude nonveg
        = Inl (KeyNotFound d)"
    by (simp add: getLAIImage_def sensor_def dict_get_sensor_dict)
next
  assume "satDigit img = Inl e"
  then show "getLAIImage tr asset hull_table img landcover longitude latitude nonveg = Inl e"
    by (simp add: getLAIImage_def sensor_def)
next
  assume "satDigit img = Inl e"
  then show "renameLandsat img = Inl e"
    by (simp add: renameLandsat_def satDigit_spacecraft_no)
next
  assume h: "satDigit img = Inr d \<and> \<not> (\<exists>c. d = [c] \<and> digit_value c \<noteq> None)"
  then obtain e where "Number_parse d = Inl e"
    using Number_parse_Inl_iff [of d] by blast
  then have "Number_parse d = Inl (NumberParse d)"
    using Number_parse_Inl by blast
  then show "renameLandsat img = Inl (NumberParse d)"
    using h by (simp add: renameLandsat_def satDigit_spacecraft_no)
next
  let ?fromL = "if 8 \<le> n then bandsL8 else bandsL57"
  assume h: "satDigit img = Inr [c] \<and> digit_value c = Some n
        \<and> set ?fromL \<subseteq> set (bandNames img)"
  then have no: "spacecraft_no img = Inr (real n)"
    by (simp add: satDigit_spacecraft_no Number_parse_def)
  obtain vs where vs: "select_bands ?fromL img = Inr vs"
    using h select_bands_ok by blast
  have "renameLandsat img
      = Inr (img\<lparr>bands := zip bandsTo vs, props := (props img)(''SPACECRAFT_NO'' \<mapsto> PNum (real n))\<rparr>)"
    using no vs by (simp add: renameLandsat_def select_def Let_def)
  with vs show "\<exists>r vs. renameLandsat img = Inr r \<and> select_bands ?fromL img = Inr vs
          \<and> bands r = zip bandsTo vs"
    by simp
next
  let ?fromL = "if 8 \<le> n then bandsL8 else bandsL57"
  assume h: "satDigit img = Inr [c] \<and> digit_value c = Some n
        \<and> \<not> set ?fromL \<subseteq> set (bandNames img)"
  then have no: "spacecraft_no img = Inr (real n)"
    by (simp add: satDigit_spacecraft_no Number_parse_def)
  obtain b where b: "b \<in> set ?fromL" "b \<notin> set (bandNames img)"
      and s: "select_bands ?fromL img = Inl (BandNotFound b)"
    using h select_bands_missing by blast
  have "renameLandsat img = Inl (BandNotFound b)"
    using no s by (simp add: renameLandsat_def select_def Let_def)
  with b show "\<exists>b. b \<in> set ?fromL \<and> b \<notin> set (bandNames img)
          \<and> renameLandsat img = Inl (BandNotFound b)"
    by blast
qed

lemma satDigit_L4: "satDigit scene_L4 = Inr ''4''"
  by (simp add: image_eval scene_L4_def)

lemma satDigit_L8: "satDigit scene_L8 = Inr ''8''"
  by (simp add: image_eval scene_L8_def)

lemma satDigit_L4_as_8:
  "satDigit (scene_L4\<lparr>props := [''SPACECRAFT_ID'' \<mapsto> PStr ''LANDSAT_8'']\<rparr>) = Inr ''8''"
  by (simp add: image_eval)

lemma digit_values: "digit_value CHR ''4'' = Some 4" "digit_value CHR ''8'' = Some 8"
  by (simp_all add: digit_value_def)

text \<open>
  Claim C6, witness: a Landsat 4 scene, a scene without \<^verbatim>\<open>SPACECRAFT_ID\<close>, a scene whose
  identifier ends in a letter, a Landsat 8 scene, and the bands of the Landsat 4 scene
  under the identifier of Landsat 8.
\<close>

theorem unknown_sensor_fails_witness:
  "satDigit scene_L4 = Inr ''4'' \<and> ''4'' \<notin> {''5'', ''7'', ''8'', ''9''}
   \<and> getLAIImage (rf_const 0) [] (\<lambda>s i j k l. 1) scene_L4 (Some 41) 0 0 False
        = Inl (KeyNotFound ''4'')
   \<and> satDigit (scene_L4\<lparr>props := Map.empty\<rparr>) = Inl (NotAString ''SPACECRAFT_ID'')
   \<and> getLAIImage (rf_const 0) [] (\<lambda>s i j k l. 1) (scene_L4\<lparr>props := Map.empty\<rparr>) (Some 41) 0 0 False
        = Inl (NotAString ''SPACECRAFT_ID'')
   \<and> renameLandsat (scene_L4\<lparr>props := Map.empty\<rparr>) = Inl (NotAString ''SPACECRAFT_ID'')
   \<and> satDigit (scene_L4\<lparr>props := [''SPACECRAFT_ID'' \<mapsto> PStr ''LANDSAT_X'']\<rparr>) = Inr ''X''
   \<and> renameLandsat (scene_L4\<lparr>props := [''SPACECRAFT_ID'' \<mapsto> PStr ''LANDSAT_X'']\<rparr>)
        = Inl (NumberParse ''X'')
   \<and> set bandsL57 \<subseteq> set (bandNames scene_L4)
   \<and> (\<exists>r vs. renameLandsat scene_L4 = Inr r \<and> select_bands bandsL57 scene_L4 = Inr vs
          \<and> bands r = zip bandsTo vs)
   \<and> satDigit scene_L8 = Inr ''8'' \<and> set bandsL8 \<subseteq> set (bandNames scene_L8)
   \<and> (\<exists>r vs. renameLandsat scene_L8 = Inr r \<and> select_bands bandsL8 scene_L8 = Inr vs
          \<and> bands r = zip bandsTo vs)
   \<and> \<not> set bandsL8 \<subseteq> set (bandNames scene_L4)
   \<and> renameLandsat (scene_L4\<lparr>props := [''SPACECRAFT_ID'' \<mapsto> PStr ''LANDSAT_8'']\<rparr>)
        = Inl (BandNotFound ''SR_B6'')"
proof -
  let ?noid = "scene_L4\<lparr>props := Map.empty\<rparr>"
  let ?LX = "scene_L4\<lparr>props := [''SPACECRAFT_ID'' \<mapsto> PStr ''LANDSAT_X'']\<rparr>"
  let ?L48 = "scene_L4\<lparr>props := [''SPACECRAFT_ID'' \<mapsto> PStr ''LANDSAT_8'']\<rparr>"
  have a: "satDigit scene_L4 = Inr ''4'' \<and> ''4'' \<notin> {''5'', ''7'', ''8'', ''9''}"
    by (simp add: satDigit_L4)
  have b: "satDigit ?noid = Inl (NotAString ''SPACECRAFT_ID'')"
    by (simp add: image_eval)
  have c: "satDigit ?LX = Inr ''X'' \<and> \<not> (\<exists>c. ''X'' = [c] \<and> digit_value c \<noteq> None)"
    by (simp add: image_eval)
  have d2: "set bandsL57 \<subseteq> set (bandNames scene_L4)"
    by (simp add: bandsL57_def bandNames_def scene_L4_def)
  have d: "satDigit scene_L4 = Inr [CHR ''4''] \<and> digit_value CHR ''4'' = Some 4
      \<and> set (if 8 \<le> (4::nat) then bandsL8 else bandsL57) \<subseteq> set (bandNames scene_L4)"
    using satDigit_L4 digit_values d2 by simp
  have e2: "set bandsL8 \<subseteq> set (bandNames scene_L8)"
    by (simp add: bandsL8_def bandNames_def scene_L8_def)
  have e: "satDigit scene_L8 = Inr [CHR ''8''] \<and> digit_value CHR ''8'' = Some 8
      \<and> set (if 8 \<le> (8::nat) then bandsL8 else bandsL57) \<subseteq> set (bandNames scene_L8)"
    using satDigit_L8 digit_values e2 by simp
  have f2: "\<not> set bandsL8 \<subseteq> set (bandNames scene_L4)"
    by (simp add: bandsL8_def bandNames_def scene_L4_def)
  have f3: "bandNames ?L48 = bandNames scene_L4"
    by (simp add: bandNames_def)
  have f: "satDigit ?L48 = Inr [CHR ''8''] \<and> digit_value CHR ''8'' = Some 8
      \<and> \<not> set (if 8 \<le> (8::nat) then bandsL8 else bandsL57) \<subseteq> set (bandNames ?L48)"
    using satDigit_L4_as_8 digit_values f2 f3 by simp
  have 1: "getLAIImage (rf_const 0) [] (\<lambda>s i j k l. 1) scene_L4 (Some 41) 0 0 False
        = Inl (KeyNotFound ''4'')"
    using a unknown_sensor_fails [where img = scene_L4 and d = "''4''" and tr = "rf_const 0"
        and asset = "[]" and hull_table = "\<lambda>s i j k l. 1" and landcover = "Some 41"
        and longitude = 0 and latitude = 0 and nonveg = False, THEN conjunct1]
    by simp
  have 2: "getLAIImage (rf_const 0) [] (\<lambda>s i j k l. 1) ?noid (Some 41) 0 0 False
        = Inl (NotAString ''SPACECRAFT_ID'')
      \<and> renameLandsat ?noid = Inl (NotAString ''SPACECRAFT_ID'')"
    using b unknown_sensor_fails [where img = ?noid
        and e = "NotAString ''SPACECRAFT_ID''" and tr = "rf_const 0" and asset = "[]"
        and hull_table = "\<lambda>s i j k l. 1" and landcover = "Some 41" and longitude = 0
        and latitude = 0 and nonveg = False, THEN conjunct2, THEN conjunct1]
    by simp
  have 3: "renameLandsat ?LX = Inl (NumberParse ''X'')"
    using c unknown_sensor_fails [where img = ?LX and d = "''X''",
        THEN conjunct2, THEN conjunct2, THEN conjunct1]
    by simp
  have 4: "\<exists>r vs. renameLandsat scene_L4 = Inr r \<and> select_bands bandsL57 scene_L4 = Inr vs
          \<and> bands r = zip bandsTo vs"
    using d unknown_sensor_fails [where img = scene_L4 and c = "CHR ''4''" and n = 4,
        THEN conjunct2, THEN conjunct2, THEN conjunct2, THEN conjunct1]
    by simp
  have 5: "\<exists>r vs. renameLandsat scene_L8 = Inr r \<and> select_bands bandsL8 scene_L8 = Inr vs
          \<and> bands r = zip bandsTo vs"
    using e unknown_sensor_fails [where img = scene_L8 and c = "CHR ''8''" and n = 8,
        THEN conjunct2, THEN conjunct2, THEN conjunct2, THEN conjunct1]
    by simp
  have "\<exists>b. b \<in> set bandsL8 \<and> b \<notin> set (bandNames ?L48)
          \<and> renameLandsat ?L48 = Inl (BandNotFound b)"
    using f unknown_sensor_fails [where img = ?L48 and c = "CHR ''8''" and n = 8,
        THEN conjunct2, THEN conjunct2, THEN conjunct2, THEN conjunct2]
    by simp
  then obtain b where "b \<in> set bandsL8" "b \<notin> set (bandNames scene_L4)"
      and r: "renameLandsat ?L48 = Inl (BandNotFound b)"
    using f3 by auto
  then have "b = ''SR_B6''"
    by (auto simp: bandsL8_def bandNames_def scene_L4_def)
  with r have 6: "renameLandsat ?L48 = Inl (BandNotFound ''SR_B6'')" by simp
  show ?thesis
    using a b c d2 e2 f2 satDigit_L8 1 2 3 4 5 6 by (intro conjI) simp_all
qed

text \<open>
  Claim C6, counterexample: \<^verbatim>\<open>renameLandsat\<close> raises no error on a Landsat 4 scene; it
  applies the Landsat 5/7 band mapping.
\<close>

theorem renameLandsat_L4_no_error:
  "satDigit scene_L4 = Inr ''4''
   \<and> map_sum id bands (renameLandsat scene_L4)
       = Inr [(''blue'', Some 8000), (''green'', Some 8500), (''red'', Some 9000),
              (''nir'', Some 16000), (''swir1'', Some 12000), (''swir2'', Some 10000),
              (''pixel_qa'', Some 5440)]"
  by (simp add: image_eval scene_L4_def)


subsection \<open>Solar geometry\<close>

lemma processLandsat_props:
  assumes "processLandsat img = Inr p"
  shows "\<exists>sz sa. solarZenith (props img) = Inr sz \<and> solarAzimuth (props img) = Inr sa
           \<and> props p ''SOLAR_ZENITH_ANGLE'' = Some (PNum sz)
           \<and> props p ''SOLAR_AZIMUTH_ANGLE'' = Some (PNum sa)"
  using assms by (auto simp: processLandsat_def bindE_Inr_iff)

text \<open>
  Claim C9. The solar zenith is 90 minus \<^verbatim>\<open>SUN_ELEVATION\<close> when that field is present, else
  \<^verbatim>\<open>SOLAR_ZENITH_ANGLE\<close> when present, else 45; the solar azimuth is \<^verbatim>\<open>SUN_AZIMUTH\<close> when
  present, else \<^verbatim>\<open>SOLAR_AZIMUTH_ANGLE\<close> when present, else 180; and \<^verbatim>\<open>processLandsat\<close>
  stores the two resolved angles as properties of its result.
\<close>

theorem solar_geometry_fallback:
  "(ps ''SUN_ELEVATION'' = Some (PNum el) \<longrightarrow> solarZenith ps = Inr (90 - el))
   \<and> (ps ''SUN_ELEVATION'' = None \<and> ps ''SOLAR_ZENITH_ANGLE'' = Some (PNum z) \<longrightarrow>
        solarZenith ps = Inr z)
   \<and> (ps ''SUN_ELEVATION'' = None \<and> ps ''SOLAR_ZENITH_ANGLE'' = None \<longrightarrow>
        solarZenith ps = Inr 45)
   \<and> (ps ''SUN_AZIMUTH'' = Some (PNum az) \<longrightarrow> solarAzimuth ps = Inr az)
   \<and> (ps ''SUN_AZIMUTH'' = None \<and> ps ''SOLAR_AZIMUTH_ANGLE'' = Some (PNum a) \<longrightarrow>
        solarAzimuth ps = Inr a)
   \<and> (ps ''SUN_AZIMUTH'' = None \<and> ps ''SOLAR_AZIMUTH_ANGLE'' = None \<longrightarrow>
        solarAzimuth ps = Inr 180)
   \<and> (processLandsat img = Inr p \<longrightarrow>
        (\<exists>sz sa. solarZenith (props img) = Inr sz \<and> solarAzimuth (props img) = Inr sa
           \<and> props p ''SOLAR_ZENITH_ANGLE'' = Some (PNum sz)
           \<and> props p ''SOLAR_AZIMUTH_ANGLE'' = Some (PNum sa)))"
proof (intro conjI impI)
  assume "processLandsat img = Inr p"
  then show "\<exists>sz sa. solarZenith (props img) = Inr sz \<and> solarAzimuth (props img) = Inr sa
           \<and> props p ''SOLAR_ZENITH_ANGLE'' = Some (PNum sz)
           \<and> props p ''SOLAR_AZIMUTH_ANGLE'' = Some (PNum sa)"
    by (rule processLandsat_props)
qed (auto simp: solarZenith_def solarAzimuth_def ee_Number_def dom_def)

lemma processLandsat_L8_ok: "\<exists>p. processLandsat scene_L8 = Inr p"
  by (simp add: processLandsat_def image_eval maskLandsat_def getVIs_def solarZenith_def
      solarAzimuth_def scene_L8_def)

text \<open>
  Claim C9, witness: each branch of each chain at a concrete property map, the first
  field having priority when both are present, and the Landsat 8 example scene.
\<close>

theorem solar_geometry_fallback_witness:
  "solarZenith [''SUN_ELEVATION'' \<mapsto> PNum 60, ''SOLAR_ZENITH_ANGLE'' \<mapsto> PNum 40] = Inr 30
   \<and> solarZenith [''SOLAR_ZENITH_ANGLE'' \<mapsto> PNum 40] = Inr 40
   \<and> solarZenith Map.empty = Inr 45
   \<and> solarAzimuth [''SUN_AZIMUTH'' \<mapsto> PNum 150, ''SOLAR_AZIMUTH_ANGLE'' \<mapsto> PNum 170] = Inr 150
   \<and> solarAzimuth [''SOLAR_AZIMUTH_ANGLE'' \<mapsto> PNum 170] = Inr 170
   \<and> solarAzimuth Map.empty = Inr 180
   \<and> (\<exists>p. processLandsat scene_L8 = Inr p
          \<and> props p ''SOLAR_ZENITH_ANGLE'' = Some (PNum 30)
          \<and> props p ''SOLAR_AZIMUTH_ANGLE'' = Some (PNum 150))"
proof -
  note t = solar_geometry_fallback
  have 1: "solarZenith [''SUN_ELEVATION'' \<mapsto> PNum 60, ''SOLAR_ZENITH_ANGLE'' \<mapsto> PNum 40] = Inr 30"
    using t [where ps = "[''SUN_ELEVATION'' \<mapsto> PNum 60, ''SOLAR_ZENITH_ANGLE'' \<mapsto> PNum 40]"
        and el = 60, THEN conjunct1]
    by simp
  have 2: "solarZenith [''SOLAR_ZENITH_ANGLE'' \<mapsto> PNum 40] = Inr 40"
    using t [where ps = "[''SOLAR_ZENITH_ANGLE'' \<mapsto> PNum 40]" and z = 40,
        THEN conjunct2, THEN conjunct1]
    by simp
  have 3: "solarZenith Map.empty = Inr 45"
    using t [where ps = Map.empty, THEN conjunct2, THEN conjunct2, THEN conjunct1]
    by simp
  have 4: "solarAzimuth [''SUN_AZIMUTH'' \<mapsto> PNum 150, ''SOLAR_AZIMUTH_ANGLE'' \<mapsto> PNum 170] = Inr 150"
    using t [where ps = "[''SUN_AZIMUTH'' \<mapsto> PNum 150, ''SOLAR_AZIMUTH_ANGLE'' \<mapsto> PNum 170]"
        and az = 150, THEN conjunct2, THEN conjunct2, THEN conjunct2, THEN conjunct1]
    by simp
  have 5: "solarAzimuth [''SOLAR_AZIMUTH_ANGLE'' \<mapsto> PNum 170] = Inr 170"
    using t [where ps = "[''SOLAR_AZIMUTH_ANGLE'' \<mapsto> PNum 170]" and a = 170,
        THEN conjunct2, THEN conjunct2, THEN conjunct2, THEN conjunct2, THEN conjunct1]
    by simp
  have 6: "solarAzimuth Map.empty = Inr 180"
    using t [where ps = Map.empty,
        THEN conjunct2, THEN conjunct2, THEN conjunct2, THEN conjunct2, THEN conjunct2, THEN conjunct1]
    by simp
  obtain p where p: "processLandsat scene_L8 = Inr p"
    using processLandsat_L8_ok ..
  have z: "solarZenith (props scene_L8) = Inr 30" "solarAzimuth (props scene_L8) = Inr 150"
    using t [where ps = "props scene_L8" and el = 60 and az = 150]
    by (simp_all add: scene_L8_def)
  have "\<exists>sz sa. solarZenith (props scene_L8) = Inr sz \<and> solarAzimuth (props scene_L8) = Inr sa
           \<and> props p ''SOLAR_ZENITH_ANGLE'' = Some (PNum sz)
           \<and> props p ''SOLAR_AZIMUTH_ANGLE'' = Some (PNum sa)"
    using p t [where img = scene_L8 and p = p,
        THEN conjunct2, THEN conjunct2, THEN conjunct2, THEN conjunct2, THEN conjunct2, THEN conjunct2]
    by simp
  with z p have 7: "\<exists>p. processLandsat scene_L8 = Inr p
          \<and> props p ''SOLAR_ZENITH_ANGLE'' = Some (PNum 30)
          \<and> props p ''SOLAR_AZIMUTH_ANGLE'' = Some (PNum 150)"
    by auto
  show ?thesis
    using 1 2 3 4 5 6 7 by (intro conjI)
qed

subsection \<open>Rounding to a double\<close>

lemma rne_err: "\<bar>of_int (rne y) - y\<bar> \<le> 1 / 2"
proof -
  define f where "f = \<lfloor>y\<rfloor>"
  have f: "of_int f \<le> y" "y < of_int f + 1" unfolding f_def by linarith+
  consider "y - of_int f < 1 / 2" | "1 / 2 < y - of_int f" | "y - of_int f = 1 / 2"
    by linarith
  then show ?thesis
  proof cases
    case 1
    then have "rne y = f" by (simp add: rne_def f_def)
    with 1 f show ?thesis by simp
  next
    case 2
    then have "rne y = f + 1" by (simp add: rne_def f_def)
    with 2 f show ?thesis by simp
  next
    case 3
    then have "rne y = f \<or> rne y = f + 1" by (simp add: rne_def f_def Let_def)
    with 3 show ?thesis by auto
  qed
qed

lemma rne_of_int: "rne (of_int k) = k"
  by (simp add: rne_def)

lemma exp_up_less: "a < 2 ^ k \<Longrightarrow> 0 < k \<Longrightarrow> exp_up n a < int k"
proof (induction n arbitrary: a k)
  case 0
  then show ?case by simp
next
  case (Suc n)
  show ?case
  proof (cases "2 \<le> a")
    case True
    obtain j where k: "k = Suc j" using Suc.prems(2) by (cases k) auto
    have "j \<noteq> 0" using True Suc.prems(1) by (cases j) (simp_all add: k)
    moreover have "a / 2 < 2 ^ j" using Suc.prems(1) by (simp add: k)
    ultimately have "exp_up n (a / 2) < int j" by (intro Suc.IH) simp_all
    with True show ?thesis by (simp add: k)
  next
    case False
    with Suc.prems(2) show ?thesis by simp
  qed
qed

lemma exp_down_le: "exp_down n a \<le> 0"
proof (induction n arbitrary: a)
  case 0
  then show ?case by simp
next
  case (Suc n)
  show ?case using Suc [of "a * 2"] by simp
qed

lemma exp_up_eq: "2 ^ k \<le> a \<Longrightarrow> a < 2 ^ Suc k \<Longrightarrow> k \<le> n \<Longrightarrow> exp_up n a = int k"
proof (induction n arbitrary: a k)
  case 0
  then show ?case by simp
next
  case (Suc n)
  show ?case
  proof (cases k)
    case 0
    with Suc.prems show ?thesis by simp
  next
    case (Suc j)
    have "2 \<le> a"
    proof -
      have "(2::real) ^ 1 \<le> 2 ^ k" by (intro power_increasing) (simp_all add: Suc)
      with Suc.prems(1) show ?thesis by simp
    qed
    moreover have "exp_up n (a / 2) = int j"
      using Suc.prems by (intro Suc.IH) (simp_all add: Suc)
    ultimately show ?thesis by (simp add: Suc)
  qed
qed

lemma dbl_exp_le: "\<bar>x\<bar> < 1024 \<Longrightarrow> dbl_exp x \<le> 9"
proof -
  assume a: "\<bar>x\<bar> < 1024"
  have "exp_up 1100 \<bar>x\<bar> < int 10" using a by (intro exp_up_less) simp_all
  moreover have "exp_down 1100 \<bar>x\<bar> \<le> 0" by (rule exp_down_le)
  ultimately show ?thesis by (simp add: dbl_exp_def)
qed

lemma dbl_err:
  assumes "\<bar>x\<bar> < 1024"
  shows "\<bar>dbl x - x\<bar> \<le> 1 / 2 ^ 44"
proof (cases "x = 0")
  case True
  then show ?thesis by (simp add: dbl_def)
next
  case False
  define u :: real where "u = 2 powi (dbl_exp x - 52)"
  have u0: "0 < u" by (simp add: u_def)
  have "u \<le> 2 powi (- 43)"
    unfolding u_def using dbl_exp_le [OF assms] by (intro power_int_increasing) simp_all
  then have u1: "u \<le> 1 / 2 ^ 43" by (simp add: power_int_minus field_simps)
  have "dbl x - x = (of_int (rne (x / u)) - x / u) * u"
    using u0 False by (simp add: dbl_def u_def Let_def field_simps)
  then have "\<bar>dbl x - x\<bar> = \<bar>of_int (rne (x / u)) - x / u\<bar> * u"
    using u0 by (simp add: abs_mult)
  also have "\<dots> \<le> 1 / 2 * u"
    using rne_err [of "x / u"] u0 by (intro mult_right_mono) simp_all
  also have "\<dots> \<le> 1 / 2 ^ 44" using u1 by simp
  finally show ?thesis .
qed

lemma dbl_at:
  assumes "2 ^ k \<le> \<bar>x\<bar>" "\<bar>x\<bar> < 2 ^ Suc k" "k \<le> 1100"
  shows "dbl x = of_int (rne (x / 2 powi (int k - 52))) * 2 powi (int k - 52)"
proof -
  have "(1::real) \<le> 2 ^ k" by simp
  with assms(1) have 1: "1 \<le> \<bar>x\<bar>" by linarith
  then have "x \<noteq> 0" by auto
  moreover have "dbl_exp x = int k"
    using 1 exp_up_eq [OF assms] by (simp add: dbl_exp_def)
  ultimately show ?thesis by (simp add: dbl_def Let_def)
qed

lemma dbl_250: "dbl 250 = 250"
  using dbl_at [of 7 250] rne_of_int [of "250 * 2 ^ 45"]
  by (simp add: power_int_minus)

lemma dbl_900: "dbl 900 = 900"
  using dbl_at [of 9 900] rne_of_int [of "900 * 2 ^ 43"]
  by (simp add: power_int_minus)

lemma dbl_d0015: "dbl (d0015 * 100) = 3 / 2"
  using dbl_at [of 0 "d0015 * 100"]
  by (simp add: power_int_minus d0015_def rne_def)

lemma LAI_encode_250: "LAI_encode (5 / 2) = 250"
  by (simp add: LAI_encode_def dbl_250)

lemma LAI_encode_900: "LAI_encode 9 = 900"
  by (simp add: LAI_encode_def dbl_900)

lemma LAI_encode_d0015: "LAI_encode d0015 = 2"
  by (simp add: LAI_encode_def round_def dbl_d0015)

lemma d0015_err: "0 \<le> d0015 \<and> d0015 \<le> 8 \<and> \<not> \<bar>LAI_decode (LAI_encode d0015) - d0015\<bar> \<le> 0.005"
  unfolding LAI_encode_d0015 by (simp add: LAI_decode_def LAI_scale_factor_def d0015_def)


lemma exp_down_eq:
  "1 \<le> a * 2 ^ k \<Longrightarrow> a * 2 ^ k < 2 \<Longrightarrow> 0 < a \<Longrightarrow> k \<le> n \<Longrightarrow> exp_down n a = - int k"
proof (induction n arbitrary: a k)
  case 0
  then show ?case by simp
next
  case (Suc n)
  show ?case
  proof (cases k)
    case 0
    with Suc.prems show ?thesis by simp
  next
    case (Suc j)
    have "a * 1 \<le> a * 2 ^ j" using Suc.prems(3) by (intro mult_left_mono) simp_all
    moreover have "a * 2 ^ j < 1" using Suc.prems(2) by (simp add: Suc)
    ultimately have "a < 1" by simp
    moreover have "exp_down n (a * 2) = - int j"
      using Suc.prems by (intro Suc.IH) (simp_all add: Suc mult.assoc)
    ultimately show ?thesis by (simp add: Suc)
  qed
qed

lemma dbl_small_at:
  assumes "1 \<le> \<bar>x\<bar> * 2 ^ k" "\<bar>x\<bar> * 2 ^ k < 2" "0 < k" "k \<le> 1100"
  shows "dbl x = of_int (rne (x / 2 powi (- int k - 52))) * 2 powi (- int k - 52)"
proof -
  have x: "x \<noteq> 0" using assms(1) by auto
  then have p: "0 < \<bar>x\<bar>" by simp
  have "(2::real) ^ 1 \<le> 2 ^ k" using assms(3) by (intro power_increasing) simp_all
  then have "\<bar>x\<bar> * 2 \<le> \<bar>x\<bar> * 2 ^ k" using p by (intro mult_left_mono) simp_all
  with assms(2) have "\<not> 1 \<le> \<bar>x\<bar>" by simp
  moreover have "exp_down 1100 \<bar>x\<bar> = - int k"
    using assms p by (intro exp_down_eq) simp_all
  ultimately have "dbl_exp x = - int k" by (simp add: dbl_exp_def)
  with x show ?thesis by (simp add: dbl_def Let_def)
qed

lemma dbl_d0015_id: "dbl d0015 = d0015"
  using dbl_small_at [of d0015 7] rne_of_int [of "1080863910568919 * 8"]
  by (simp add: power_int_minus d0015_def)

subsection \<open>The QA band\<close>

lemma in_mask_Some:
  assumes "red t = Some r" "green t = Some g" "nir t = Some n" "swir1 t = Some s"
  shows "in_mask h t =
           Some (of_bool (\<not> (0 \<le> r \<and> r < red_max \<and> 0 \<le> g \<and> g < green_max
                              \<and> 0 \<le> n \<and> n < nir_max \<and> 0 \<le> s \<and> s < swir1_max)
                          \<or> h \<lfloor>r / red_max * 10\<rfloor> \<lfloor>g / green_max * 10\<rfloor>
                               \<lfloor>n / nir_max * 10\<rfloor> \<lfloor>s / swir1_max * 10\<rfloor> = 0))"
  by (auto simp: in_mask_def hull_image_def range_mask_def image_scaled_def arrayGet_def
      px_eval assms)

lemma range_mask_None:
  assumes "red t = None \<or> green t = None \<or> nir t = None \<or> swir1 t = None"
  shows "range_mask t = None"
  using assms by (auto simp: range_mask_def px_eval split: option.splits)

lemma in_mask_None:
  assumes "red t = None \<or> green t = None \<or> nir t = None \<or> swir1 t = None"
  shows "in_mask h t = Some 1"
  using range_mask_None [OF assms]
  by (simp add: in_mask_def hull_image_def arrayGet_def px_eval)

lemma in_mask_ex: "\<exists>b0. in_mask h t = Some (of_bool b0)"
proof (cases "red t = None \<or> green t = None \<or> nir t = None \<or> swir1 t = None")
  case True
  then have "in_mask h t = Some (of_bool True)" by (simp add: in_mask_None)
  then show ?thesis by blast
next
  case False
  then obtain r g n s where "red t = Some r" "green t = Some g" "nir t = Some n" "swir1 t = Some s"
    by auto
  then show ?thesis using in_mask_Some [of t r g n s h] by blast
qed

lemma out_mask_eq:
  "out_mask lai = map_option (\<lambda>v. of_bool (\<not> (0 \<le> v \<and> v \<le> lai_max))) lai"
  by (cases lai) (simp_all add: out_mask_def px_eval)

lemma biome_mask_eq:
  "biome_mask t = map_option (\<lambda>b. of_bool (b = 0)) (biome2 t)"
  by (cases "biome2 t") (simp_all add: biome_mask_def px_eval)

lemma qa_pack:
  "(ucast ((ucast (of_bool b0 :: 8 word) OR push_bit 1 (of_bool b1 :: 32 word))
      OR push_bit 2 (of_bool b2)) :: 8 word)
   = of_bool b0 OR push_bit 1 (of_bool b1) OR push_bit 2 (of_bool b2)"
  by (cases b0; cases b1; cases b2) simp_all

lemma qa_bits:
  fixes q :: "8 word"
  assumes "q = of_bool b0 OR push_bit 1 (of_bool b1) OR push_bit 2 (of_bool b2)"
  shows "bit q 0 \<longleftrightarrow> b0" "bit q 1 \<longleftrightarrow> b1" "bit q 2 \<longleftrightarrow> b2"
  unfolding assms by (cases b0; cases b1; cases b2; simp add: bit_or_iff bit_push_bit_iff bit_1_iff)+

lemma getLAIQA_Some:
  assumes "getLAIQA hull_table t sn lai = Some q"
  shows "\<exists>b0 v b. in_mask (hull_table sn) t = Some (of_bool b0) \<and> lai = Some v \<and> biome2 t = Some b
           \<and> q = of_bool b0 OR push_bit 1 (of_bool (\<not> (0 \<le> v \<and> v \<le> lai_max)))
                   OR push_bit 2 (of_bool (b = 0))"
proof -
  obtain b0 where b0: "in_mask (hull_table sn) t = Some (of_bool b0)"
    using in_mask_ex by blast
  from assms obtain v b where v: "lai = Some v" and b: "biome2 t = Some b"
    by (cases lai; cases "biome2 t")
       (auto simp: getLAIQA_def out_mask_eq biome_mask_eq lift2_def b0)
  have "getLAIQA hull_table t sn lai = Some (ucast ((ucast (of_bool b0 :: 8 word)
        OR push_bit 1 (of_bool (\<not> (0 \<le> v \<and> v \<le> lai_max)) :: 32 word))
        OR push_bit 2 (of_bool (b = 0))))"
    unfolding getLAIQA_def out_mask_eq biome_mask_eq lift2_def b0 v b Let_def
    by (simp only: option.map option.case)
  with assms have "q = of_bool b0 OR push_bit 1 (of_bool (\<not> (0 \<le> v \<and> v \<le> lai_max)))
                   OR push_bit 2 (of_bool (b = 0))"
    by (simp only: qa_pack option.inject)
  with b0 v b show ?thesis by blast
qed

lemma getLAIQA_None_iff:
  "getLAIQA hull_table t sn lai = None \<longleftrightarrow> lai = None \<or> biome2 t = None"
proof -
  obtain b0 where b0: "in_mask (hull_table sn) t = Some (of_bool b0)"
    using in_mask_ex by blast
  show ?thesis
    by (cases lai; cases "biome2 t")
       (simp_all add: getLAIQA_def out_mask_eq biome_mask_eq lift2_def b0)
qed

lemma image_scaled_bin:
  assumes "0 \<le> x" "x < vmax"
  shows "\<exists>i. image_scaled (Some x) vmax = Some i \<and> 0 \<le> i \<and> i \<le> 9
           \<and> of_int i * (vmax / 10) \<le> x \<and> x < (of_int i + 1) * (vmax / 10)"
proof -
  have pos: "0 < vmax" using assms by simp
  define y where "y = x / vmax * 10"
  define i where "i = \<lfloor>y\<rfloor>"
  have x: "x = y * (vmax / 10)" using pos by (simp add: y_def)
  have y0: "0 \<le> y" using assms pos by (simp add: y_def)
  have y10: "y < 10" using assms pos by (simp add: y_def field_simps)
  have lo: "of_int i \<le> y" and hi: "y < of_int i + 1"
    by (simp_all add: i_def)
  have i0: "0 \<le> i" using y0 by (simp add: i_def)
  have "i < 10" using y10 by (simp add: i_def floor_less_iff)
  then have i9: "i \<le> 9" by simp
  have "of_int i * (vmax / 10) \<le> y * (vmax / 10)"
    using lo pos by (intro mult_right_mono) simp_all
  then have a: "of_int i * (vmax / 10) \<le> x" by (simp only: x [symmetric])
  have "y * (vmax / 10) < (of_int i + 1) * (vmax / 10)"
    using hi pos by (intro mult_strict_right_mono) simp_all
  then have b: "x < (of_int i + 1) * (vmax / 10)" by (simp only: x [symmetric])
  have "image_scaled (Some x) vmax = Some i"
    by (simp add: image_scaled_def i_def y_def)
  with i0 i9 a b show ?thesis by blast
qed

subsection \<open>The biome overlay\<close>

lemma getRFModel_EENumber:
  "getRFModel tr asset sn (EENumber b) = tr (filter (\<lambda>s. s_sensor s = sn) asset)"
  by (simp add: getRFModel_def js_gt_def)

lemma lai_img_step_other: "biome2 t \<noteq> Some b \<Longrightarrow> lai_img_step tr asset sn t b x = x"
  by (cases x; cases "biome2 t")
     (auto simp: lai_img_step_def Let_def ee_value_def ee_where_def ee_eq_def split: option.splits)

lemma lai_img_step_None: "lai_img_step tr asset sn t b None = None"
  by (simp add: lai_img_step_def Let_def ee_where_def)

lemma lai_img_fold_other:
  "biome2 t \<notin> Some ` set bs \<Longrightarrow> fold (lai_img_step tr asset sn t) bs x = x"
  by (induction bs arbitrary: x) (auto simp: lai_img_step_other)

lemma getLAIforBiome_own:
  "biome2 t = Some b \<Longrightarrow> getLAIforBiome t m b = classify (features t) m"
proof -
  assume "biome2 t = Some b"
  then have "map (\<lambda>v. updateMask v (ee_eq (biome2 t) b)) (features t) = features t"
    by (simp add: updateMask_def ee_eq_def)
  then show ?thesis by (simp add: getLAIforBiome_def)
qed

lemma lai_img_step_own:
  "biome2 t = Some b \<Longrightarrow>
     lai_img_step tr asset sn t b (Some i)
       = (case classify (features t) (getRFModel tr asset sn (EENumber b)) of
            None \<Rightarrow> Some i | Some v \<Rightarrow> Some v)"
  by (simp add: lai_img_step_def Let_def ee_value_def getLAIforBiome_own ee_where_def ee_eq_def
      split: option.splits)

lemma lai_img_fold_own:
  assumes "distinct bs" "b \<in> set bs" "biome2 t = Some b"
  shows "fold (lai_img_step tr asset sn t) bs x = lai_img_step tr asset sn t b x"
proof -
  from assms(2) obtain xs ys where bs: "bs = xs @ b # ys"
    by (auto simp: in_set_conv_decomp)
  with assms(1) have "b \<notin> set xs" "b \<notin> set ys" by auto
  then have "biome2 t \<notin> Some ` set xs" "biome2 t \<notin> Some ` set ys"
    using assms(3) by auto
  then show ?thesis
    by (simp add: bs lai_img_fold_other)
qed

lemma distinct_biomes: "distinct (biomes nonveg)"
  by (simp add: biomes_def)

lemma lai_img_init_cases: "lai_img_init t = (if mask_b t = None then None else Some 9999)"
  by (cases "mask_b t") (simp_all add: lai_img_init_def)

lemma sentinel_masked: "x = None \<or> x = Some 9999 \<Longrightarrow> updateMask x (neq x 9999) = None"
  by (auto simp: updateMask_def neq_def)

lemma lai_img_final_unmatched:
  assumes "biome2 t \<notin> Some ` set (biomes nonveg)"
  shows "lai_img_loop tr asset sn t (biomes nonveg) = lai_img_init t"
    and "lai_img_final tr asset sn t nonveg = None"
proof -
  show l: "lai_img_loop tr asset sn t (biomes nonveg) = lai_img_init t"
    using assms by (simp add: lai_img_loop_def lai_img_fold_other)
  have "lai_img_init t = None \<or> lai_img_init t = Some 9999"
    by (simp add: lai_img_init_cases)
  then show "lai_img_final tr asset sn t nonveg = None"
    by (simp add: lai_img_final_def l sentinel_masked)
qed

lemma getLAIImage_px_masked:
  "lai_img_final tr asset sn t nonveg = None \<Longrightarrow>
     getLAIImage_px tr asset h sn t nonveg = \<lparr>LAI = None, QA = None\<rparr>"
  by (simp add: getLAIImage_px_def getLAIQA_None_iff)

lemma getLAIImage_px_sel:
  "LAI (getLAIImage_px tr asset h sn t nonveg)
     = map_option LAI_encode (lai_img_final tr asset sn t nonveg)"
  "QA (getLAIImage_px tr asset h sn t nonveg)
     = getLAIQA h t sn (lai_img_final tr asset sn t nonveg)"
  by (simp_all add: getLAIImage_px_def Let_def)

text \<open>
  A pixel that has an LAI value after the loop: its biome is one of the processed
  biomes, all ten features are unmasked, and the value is the output of the regressor
  trained on all features of the sensor.
\<close>

lemma lai_img_final_Some:
  assumes "lai_img_final tr asset sn t nonveg = Some v"
  shows "\<exists>b. biome2 t = Some b \<and> b \<in> set (biomes nonveg) \<and> mask_b t \<noteq> None
           \<and> list_all (\<lambda>x. x \<noteq> None) (features t)
           \<and> v = tr (filter (\<lambda>s. s_sensor s = sn) asset) (map the (features t))
           \<and> v \<noteq> 9999"
proof -
  have "biome2 t \<in> Some ` set (biomes nonveg)"
  proof (rule ccontr)
    assume "biome2 t \<notin> Some ` set (biomes nonveg)"
    then have "lai_img_final tr asset sn t nonveg = None" by (rule lai_img_final_unmatched)
    with assms show False by simp
  qed
  then obtain b where b: "biome2 t = Some b" "b \<in> set (biomes nonveg)" by auto
  have loop: "lai_img_loop tr asset sn t (biomes nonveg)
      = lai_img_step tr asset sn t b (lai_img_init t)"
    using b by (simp add: lai_img_loop_def lai_img_fold_own distinct_biomes)
  have m: "mask_b t \<noteq> None"
  proof
    assume "mask_b t = None"
    then have "lai_img_loop tr asset sn t (biomes nonveg) = None"
      by (simp add: loop lai_img_init_cases lai_img_step_None)
    then have "lai_img_final tr asset sn t nonveg = None"
      by (simp add: lai_img_final_def sentinel_masked)
    with assms show False by simp
  qed
  then have init: "lai_img_init t = Some 9999" by (simp add: lai_img_init_cases)
  have f: "list_all (\<lambda>x. x \<noteq> None) (features t)"
  proof (rule ccontr)
    assume "\<not> list_all (\<lambda>x. x \<noteq> None) (features t)"
    then have "classify (features t) (getRFModel tr asset sn (EENumber b)) = None"
      by (simp add: classify_def)
    then have "lai_img_loop tr asset sn t (biomes nonveg) = Some 9999"
      using b(1) by (simp add: loop init lai_img_step_own)
    then have "lai_img_final tr asset sn t nonveg = None"
      by (simp add: lai_img_final_def sentinel_masked)
    with assms show False by simp
  qed
  let ?x = "tr (filter (\<lambda>s. s_sensor s = sn) asset) (map the (features t))"
  have "classify (features t) (getRFModel tr asset sn (EENumber b)) = Some ?x"
    using f by (simp add: classify_def getRFModel_EENumber)
  then have "lai_img_loop tr asset sn t (biomes nonveg) = Some ?x"
    using b(1) by (simp add: loop init lai_img_step_own)
  then have "lai_img_final tr asset sn t nonveg = (if ?x \<noteq> 9999 then Some ?x else None)"
    by (simp add: lai_img_final_def updateMask_def neq_def)
  with assms have "v = ?x \<and> v \<noteq> 9999" by (simp split: if_splits)
  with b m f show ?thesis by blast
qed

lemma getLAIImage_px_QA_Some:
  assumes "QA (getLAIImage_px tr asset h sn t nonveg) = Some q"
  shows "\<exists>v b r g n s. lai_img_final tr asset sn t nonveg = Some v
           \<and> getLAIQA h t sn (Some v) = Some q
           \<and> biome2 t = Some b \<and> b \<in> set (biomes nonveg)
           \<and> red t = Some r \<and> green t = Some g \<and> nir t = Some n \<and> swir1 t = Some s"
proof -
  from assms have g: "getLAIQA h t sn (lai_img_final tr asset sn t nonveg) = Some q"
    by (simp only: getLAIImage_px_sel)
  then have "lai_img_final tr asset sn t nonveg \<noteq> None"
    using getLAIQA_None_iff [of h t sn "lai_img_final tr asset sn t nonveg"] by auto
  then obtain v where v: "lai_img_final tr asset sn t nonveg = Some v" by auto
  obtain b where b: "biome2 t = Some b" "b \<in> set (biomes nonveg)"
      and f: "list_all (\<lambda>x. x \<noteq> None) (features t)"
    using lai_img_final_Some [OF v] by blast
  from f obtain r g' n s where "red t = Some r" "green t = Some g'" "nir t = Some n"
      "swir1 t = Some s"
    by (auto simp: features_def)
  with v b g show ?thesis by auto
qed

lemma px_forest_shared_model:
  "lai_img_final rf_mean asset3 ''LC08'' px_forest False = Some 3"
  by (simp add: lai_eval qa_eval px_forest_def asset3_def rf_mean_def
      del: not_None_eq map_option_eq_Some)

text \<open>
  Claim C8, the model that writes a pixel. The loop hands \<^verbatim>\<open>getRFModel\<close> the biome wrapped
  in \<^verbatim>\<open>ee.Number\<close>, the test \<^verbatim>\<open>biome > 0\<close> of \<^verbatim>\<open>getRFModel\<close> is false for it, and the filter
  on the property \<^verbatim>\<open>biome2\<close> is never applied: the regressor is trained on the features
  of all biomes of the sensor and is the same for every biome of the loop, against the
  comment \<^verbatim>\<open>Train biome-specific RF model\<close> of \<^verbatim>\<open>getRFModel\<close>. With the training asset
  \<open>asset3\<close> and a training that predicts the mean LAI of its features, the forest example
  pixel, of biome 1 under Landsat 8, gets the LAI 3, the mean over the Landsat 8 features
  of biomes 1 and 2; the model of biome 1, which \<^verbatim>\<open>getRFModel\<close> returns for the JavaScript
  number 1, predicts 1.
\<close>

theorem getRFModel_ignores_biome:
  "getRFModel tr asset sn (EENumber b) = tr (filter (\<lambda>s. s_sensor s = sn) asset)
   \<and> getRFModel tr asset sn (EENumber b) = getRFModel tr asset sn (EENumber b')
   \<and> getRFModel tr asset sn (JSNumber 1)
       = tr (filter (\<lambda>s. s_biome2 s = 1) (filter (\<lambda>s. s_sensor s = sn) asset))
   \<and> biome2 px_forest = Some 1
   \<and> lai_img_final rf_mean asset3 ''LC08'' px_forest False = Some 3
   \<and> getRFModel rf_mean asset3 ''LC08'' (JSNumber 1) (map the (features px_forest)) = 1
   \<and> getRFModel rf_mean asset3 ''LC08'' (EENumber 1) (map the (features px_forest)) = 3"
proof (intro conjI)
  show "getRFModel tr asset sn (EENumber b) = tr (filter (\<lambda>s. s_sensor s = sn) asset)"
    by (rule getRFModel_EENumber)
  show "getRFModel tr asset sn (EENumber b) = getRFModel tr asset sn (EENumber b')"
    by (simp only: getRFModel_EENumber)
  show "getRFModel tr asset sn (JSNumber 1)
       = tr (filter (\<lambda>s. s_biome2 s = 1) (filter (\<lambda>s. s_sensor s = sn) asset))"
    by (simp add: getRFModel_def js_gt_def ee_value_def)
  show "biome2 px_forest = Some 1" by (simp add: px_forest_def)
  show "lai_img_final rf_mean asset3 ''LC08'' px_forest False = Some 3"
    by (rule px_forest_shared_model)
  show "getRFModel rf_mean asset3 ''LC08'' (JSNumber 1) (map the (features px_forest)) = 1"
    by (simp add: getRFModel_def js_gt_def ee_value_def asset3_def rf_mean_def)
  show "getRFModel rf_mean asset3 ''LC08'' (EENumber 1) (map the (features px_forest)) = 3"
    by (simp add: getRFModel_def js_gt_def ee_value_def asset3_def rf_mean_def)
qed

subsection \<open>QA bit 0: input range and convex hull\<close>

lemma getLAIQA_bit0:
  assumes "getLAIQA hull_table t sn lai = Some q"
      and "red t = Some r" "green t = Some g" "nir t = Some n" "swir1 t = Some s"
  shows "bit q 0 \<longleftrightarrow>
           \<not> (0 \<le> r \<and> r < 5100 \<and> 0 \<le> g \<and> g < 5100 \<and> 0 \<le> n \<and> n < 7100 \<and> 0 \<le> s \<and> s < 7100)
           \<or> hull_table sn \<lfloor>r / 5100 * 10\<rfloor> \<lfloor>g / 5100 * 10\<rfloor> \<lfloor>n / 7100 * 10\<rfloor> \<lfloor>s / 7100 * 10\<rfloor> = 0"
proof -
  obtain b0 and v b :: real where b0: "in_mask (hull_table sn) t = Some (of_bool b0)"
      and q: "q = of_bool b0 OR push_bit 1 (of_bool (\<not> (0 \<le> v \<and> v \<le> lai_max)))
                   OR push_bit 2 (of_bool (b = 0))"
    using getLAIQA_Some [OF assms(1)] by blast
  have bit0: "bit q 0 \<longleftrightarrow> b0" using q by (rule qa_bits)
  have "in_mask (hull_table sn) t =
           Some (of_bool (\<not> (0 \<le> r \<and> r < red_max \<and> 0 \<le> g \<and> g < green_max
                              \<and> 0 \<le> n \<and> n < nir_max \<and> 0 \<le> s \<and> s < swir1_max)
                          \<or> hull_table sn \<lfloor>r / red_max * 10\<rfloor> \<lfloor>g / green_max * 10\<rfloor>
                               \<lfloor>n / nir_max * 10\<rfloor> \<lfloor>s / swir1_max * 10\<rfloor> = 0))"
    using assms(2-5) by (rule in_mask_Some)
  with b0 have "b0 \<longleftrightarrow> (\<not> (0 \<le> r \<and> r < red_max \<and> 0 \<le> g \<and> g < green_max
                              \<and> 0 \<le> n \<and> n < nir_max \<and> 0 \<le> s \<and> s < swir1_max)
                          \<or> hull_table sn \<lfloor>r / red_max * 10\<rfloor> \<lfloor>g / green_max * 10\<rfloor>
                               \<lfloor>n / nir_max * 10\<rfloor> \<lfloor>s / swir1_max * 10\<rfloor> = 0)"
    by (simp only: option.inject of_bool_eq_iff)
  with bit0 show ?thesis
    by (simp only: red_max_def green_max_def nir_max_def swir1_max_def)
qed

text \<open>
  Claim C7, amended. A pixel has a QA value exactly where its LAI and its biome are
  unmasked, whatever its reflectance. Where it has one, bit 0 is set exactly when one of
  red, green, nir, swir1 is outside its range, from 0 up to and not including 5100,
  5100, 7100, 7100, or the entry of the sensor's hull table at the four bin indices
  \<open>\<lfloor>v / max * 10\<rfloor>\<close> is 0. The ranges are the same constants for every sensor; only the
  hull table depends on the sensor. In the output of \<^verbatim>\<open>getLAIImage\<close> a pixel with a QA
  value has the four reflectances unmasked. Inside its range a band falls in one of ten
  bins of equal width, numbered 0 to 9.
\<close>

theorem qa_bit0_hull:
  "(lai = Some v \<and> biome2 t = Some b
      \<and> red t = Some r \<and> green t = Some g \<and> nir t = Some n \<and> swir1 t = Some s \<longrightarrow>
      (\<exists>q. getLAIQA hull_table t sn lai = Some q
         \<and> (bit q 0 \<longleftrightarrow>
              \<not> (0 \<le> r \<and> r < 5100 \<and> 0 \<le> g \<and> g < 5100 \<and> 0 \<le> n \<and> n < 7100 \<and> 0 \<le> s \<and> s < 7100)
              \<or> hull_table sn \<lfloor>r / 5100 * 10\<rfloor> \<lfloor>g / 5100 * 10\<rfloor> \<lfloor>n / 7100 * 10\<rfloor> \<lfloor>s / 7100 * 10\<rfloor> = 0)))
   \<and> (getLAIQA hull_table t sn lai = None \<longleftrightarrow> lai = None \<or> biome2 t = None)
   \<and> (QA (getLAIImage_px tr asset hull_table sn t nonveg) = Some q' \<longrightarrow>
        (\<exists>r g n s. red t = Some r \<and> green t = Some g \<and> nir t = Some n \<and> swir1 t = Some s
           \<and> (bit q' 0 \<longleftrightarrow>
                \<not> (0 \<le> r \<and> r < 5100 \<and> 0 \<le> g \<and> g < 5100 \<and> 0 \<le> n \<and> n < 7100 \<and> 0 \<le> s \<and> s < 7100)
                \<or> hull_table sn \<lfloor>r / 5100 * 10\<rfloor> \<lfloor>g / 5100 * 10\<rfloor> \<lfloor>n / 7100 * 10\<rfloor> \<lfloor>s / 7100 * 10\<rfloor> = 0)))
   \<and> (0 \<le> x \<and> x < vmax \<longrightarrow>
        (\<exists>i. image_scaled (Some x) vmax = Some i \<and> 0 \<le> i \<and> i \<le> 9
           \<and> of_int i * (vmax / 10) \<le> x \<and> x < (of_int i + 1) * (vmax / 10)))
   \<and> red_max = 5100 \<and> green_max = 5100 \<and> nir_max = 7100 \<and> swir1_max = 7100"
proof -
  have 1: "\<exists>q. getLAIQA hull_table t sn lai = Some q
         \<and> (bit q 0 \<longleftrightarrow>
              \<not> (0 \<le> r \<and> r < 5100 \<and> 0 \<le> g \<and> g < 5100 \<and> 0 \<le> n \<and> n < 7100 \<and> 0 \<le> s \<and> s < 7100)
              \<or> hull_table sn \<lfloor>r / 5100 * 10\<rfloor> \<lfloor>g / 5100 * 10\<rfloor> \<lfloor>n / 7100 * 10\<rfloor> \<lfloor>s / 7100 * 10\<rfloor> = 0)"
    if h: "lai = Some v \<and> biome2 t = Some b
      \<and> red t = Some r \<and> green t = Some g \<and> nir t = Some n \<and> swir1 t = Some s"
  proof -
    from h have "getLAIQA hull_table t sn lai \<noteq> None"
      by (simp add: getLAIQA_None_iff)
    then obtain q where q: "getLAIQA hull_table t sn lai = Some q" by auto
    from h have b: "red t = Some r" "green t = Some g" "nir t = Some n" "swir1 t = Some s"
      by simp_all
    have "bit q 0 \<longleftrightarrow>
              \<not> (0 \<le> r \<and> r < 5100 \<and> 0 \<le> g \<and> g < 5100 \<and> 0 \<le> n \<and> n < 7100 \<and> 0 \<le> s \<and> s < 7100)
              \<or> hull_table sn \<lfloor>r / 5100 * 10\<rfloor> \<lfloor>g / 5100 * 10\<rfloor> \<lfloor>n / 7100 * 10\<rfloor> \<lfloor>s / 7100 * 10\<rfloor> = 0"
      using q b by (rule getLAIQA_bit0)
    with q show ?thesis by blast
  qed
  have 2: "getLAIQA hull_table t sn lai = None \<longleftrightarrow> lai = None \<or> biome2 t = None"
    by (rule getLAIQA_None_iff)
  have 3: "\<exists>r g n s. red t = Some r \<and> green t = Some g \<and> nir t = Some n \<and> swir1 t = Some s
           \<and> (bit q' 0 \<longleftrightarrow>
                \<not> (0 \<le> r \<and> r < 5100 \<and> 0 \<le> g \<and> g < 5100 \<and> 0 \<le> n \<and> n < 7100 \<and> 0 \<le> s \<and> s < 7100)
                \<or> hull_table sn \<lfloor>r / 5100 * 10\<rfloor> \<lfloor>g / 5100 * 10\<rfloor> \<lfloor>n / 7100 * 10\<rfloor> \<lfloor>s / 7100 * 10\<rfloor> = 0)"
    if h: "QA (getLAIImage_px tr asset hull_table sn t nonveg) = Some q'"
  proof -
    obtain v r g n s where g: "getLAIQA hull_table t sn (Some v) = Some q'"
        and b: "red t = Some r" "green t = Some g" "nir t = Some n" "swir1 t = Some s"
      using getLAIImage_px_QA_Some [OF h] by blast
    have "bit q' 0 \<longleftrightarrow>
                \<not> (0 \<le> r \<and> r < 5100 \<and> 0 \<le> g \<and> g < 5100 \<and> 0 \<le> n \<and> n < 7100 \<and> 0 \<le> s \<and> s < 7100)
                \<or> hull_table sn \<lfloor>r / 5100 * 10\<rfloor> \<lfloor>g / 5100 * 10\<rfloor> \<lfloor>n / 7100 * 10\<rfloor> \<lfloor>s / 7100 * 10\<rfloor> = 0"
      using g b by (rule getLAIQA_bit0)
    with b show ?thesis by blast
  qed
  have 4: "\<exists>i. image_scaled (Some x) vmax = Some i \<and> 0 \<le> i \<and> i \<le> 9
           \<and> of_int i * (vmax / 10) \<le> x \<and> x < (of_int i + 1) * (vmax / 10)"
    if "0 \<le> x \<and> x < vmax"
    using that image_scaled_bin by blast
  have 5: "red_max = 5100 \<and> green_max = 5100 \<and> nir_max = 7100 \<and> swir1_max = 7100"
    by (simp add: red_max_def green_max_def nir_max_def swir1_max_def)
  from 1 2 3 4 5 show ?thesis by blast
qed

lemma qa_forest_in_hull:
  "QA (getLAIImage_px (rf_const 2.5) [] hull_red5 ''LC08'' px_forest False) = Some 0"
  by (simp add: lai_eval qa_eval px_forest_def hull_red5_def rf_const_def
      del: not_None_eq map_option_eq_Some)

lemma qa_forest_out_of_range:
  "QA (getLAIImage_px (rf_const 2.5) [] hull_red5 ''LC08'' (px_forest\<lparr>red := Some 6000\<rparr>) False)
     = Some 1"
  by (simp add: lai_eval qa_eval px_forest_def hull_red5_def rf_const_def
      del: not_None_eq map_option_eq_Some)

lemma qa_forest_out_of_hull:
  "QA (getLAIImage_px (rf_const 2.5) [] hull_red5 ''LC08'' (px_forest\<lparr>red := Some 2000\<rparr>) False)
     = Some 1"
  by (simp add: lai_eval qa_eval px_forest_def hull_red5_def rf_const_def
      del: not_None_eq map_option_eq_Some)

text \<open>
  Claim C7, witness: in the output of the retrieval, the forest example pixel (red 3000,
  bin 5, in the hull) has bit 0 clear; with red 6000, out of range, and with red 2000,
  in range and in bin 3 outside the hull, it has bit 0 set. The bin of red 3000 is one
  of the ten.
\<close>

theorem qa_bit0_hull_witness:
  "QA (getLAIImage_px (rf_const 2.5) [] hull_red5 ''LC08'' px_forest False) = Some 0
   \<and> \<not> bit (0 :: 8 word) 0
   \<and> QA (getLAIImage_px (rf_const 2.5) [] hull_red5 ''LC08'' (px_forest\<lparr>red := Some 6000\<rparr>) False)
       = Some 1
   \<and> \<not> (6000 :: real) < 5100
   \<and> QA (getLAIImage_px (rf_const 2.5) [] hull_red5 ''LC08'' (px_forest\<lparr>red := Some 2000\<rparr>) False)
       = Some 1
   \<and> (2000 :: real) < 5100
   \<and> hull_red5 ''LC08'' \<lfloor>2000 / 5100 * 10 :: real\<rfloor> \<lfloor>1000 / 5100 * 10 :: real\<rfloor>
        \<lfloor>4000 / 7100 * 10 :: real\<rfloor> \<lfloor>2000 / 7100 * 10 :: real\<rfloor> = 0
   \<and> bit (1 :: 8 word) 0
   \<and> (\<exists>q. getLAIQA hull_red5 (px_forest\<lparr>red := Some 6000\<rparr>) ''LE07'' (Some 2.5) = Some q \<and> bit q 0)
   \<and> (\<exists>i. image_scaled (Some 3000) red_max = Some i \<and> 0 \<le> i \<and> i \<le> 9
          \<and> of_int i * (red_max / 10) \<le> 3000 \<and> 3000 < (of_int i + 1) * (red_max / 10))"
proof -
  have 1: "\<not> bit (0 :: 8 word) 0"
    using qa_forest_in_hull
      qa_bit0_hull [where tr = "rf_const 2.5" and asset = "[]" and hull_table = hull_red5
        and sn = "''LC08''" and t = px_forest and nonveg = False and q' = 0,
        THEN conjunct2, THEN conjunct2, THEN conjunct1]
    by (simp add: px_forest_def hull_red5_def)
  have 2: "bit (1 :: 8 word) 0"
    using qa_forest_out_of_range
      qa_bit0_hull [where tr = "rf_const 2.5" and asset = "[]" and hull_table = hull_red5
        and sn = "''LC08''" and t = "px_forest\<lparr>red := Some 6000\<rparr>" and nonveg = False and q' = 1,
        THEN conjunct2, THEN conjunct2, THEN conjunct1]
    by (simp add: px_forest_def hull_red5_def)
  have 3: "hull_red5 ''LC08'' \<lfloor>2000 / 5100 * 10 :: real\<rfloor> \<lfloor>1000 / 5100 * 10 :: real\<rfloor>
        \<lfloor>4000 / 7100 * 10 :: real\<rfloor> \<lfloor>2000 / 7100 * 10 :: real\<rfloor> = 0"
    using qa_forest_out_of_hull
      qa_bit0_hull [where tr = "rf_const 2.5" and asset = "[]" and hull_table = hull_red5
        and sn = "''LC08''" and t = "px_forest\<lparr>red := Some 2000\<rparr>" and nonveg = False and q' = 1,
        THEN conjunct2, THEN conjunct2, THEN conjunct1]
    by (simp add: px_forest_def)
  have 4: "\<exists>q. getLAIQA hull_red5 (px_forest\<lparr>red := Some 6000\<rparr>) ''LE07'' (Some 2.5) = Some q \<and> bit q 0"
    using qa_bit0_hull [where lai = "Some 2.5" and v = "2.5" and b = 1 and r = 6000 and g = 1000
        and n = 4000 and s = 2000 and hull_table = hull_red5 and sn = "''LE07''"
        and t = "px_forest\<lparr>red := Some 6000\<rparr>", THEN conjunct1]
    by (simp add: px_forest_def)
  have 5: "\<exists>i. image_scaled (Some 3000) red_max = Some i \<and> 0 \<le> i \<and> i \<le> 9
          \<and> of_int i * (red_max / 10) \<le> 3000 \<and> 3000 < (of_int i + 1) * (red_max / 10)"
    using qa_bit0_hull [where x = 3000 and vmax = red_max,
        THEN conjunct2, THEN conjunct2, THEN conjunct2, THEN conjunct1]
    by (simp add: red_max_def)
  from qa_forest_in_hull 1 qa_forest_out_of_range qa_forest_out_of_hull 3 2 4 5
  show ?thesis by (intro conjI) simp_all
qed

lemma px_bright_nonveg_masked:
  "getLAIImage_px (rf_const 2.5) [] hull_red5 ''LC08''
     (px_forest\<lparr>red := Some 6000, biome2 := Some 0\<rparr>) False = \<lparr>LAI = None, QA = None\<rparr>"
  by (simp add: lai_eval qa_eval px_forest_def hull_red5_def rf_const_def
      del: not_None_eq map_option_eq_Some)

text \<open>
  Claim C7, counterexample: a pixel with red 6000, outside the range of red, and biome 0
  has no LAI value when non-vegetated retrieval is disabled; its QA value is masked, so
  bit 0 is not set there although an input is out of range.
\<close>

theorem qa_bit0_unset_where_masked:
  "red (px_forest\<lparr>red := Some 6000, biome2 := Some 0\<rparr>) = Some 6000
   \<and> red_max \<le> 6000
   \<and> QA (getLAIImage_px (rf_const 2.5) [] hull_red5 ''LC08''
          (px_forest\<lparr>red := Some 6000, biome2 := Some 0\<rparr>) False) = None
   \<and> \<not> (\<exists>q. QA (getLAIImage_px (rf_const 2.5) [] hull_red5 ''LC08''
                 (px_forest\<lparr>red := Some 6000, biome2 := Some 0\<rparr>) False) = Some q \<and> bit q 0)"
  using px_bright_nonveg_masked by (simp add: red_max_def)

subsection \<open>The three bits of the QA value\<close>

lemma getLAIQA_bit2:
  assumes "getLAIQA h u s l = Some q"
  shows "bit q 2 \<longleftrightarrow> biome2 u = Some 0"
proof -
  obtain b0 and v b :: real where b: "biome2 u = Some b"
    and q: "q = of_bool b0 OR push_bit 1 (of_bool (\<not> (0 \<le> v \<and> v \<le> lai_max)))
                 OR push_bit 2 (of_bool (b = 0))"
    using getLAIQA_Some [OF assms] by blast
  have "bit q 2 \<longleftrightarrow> b = 0" using q by (rule qa_bits)
  with b show ?thesis by simp
qed

text \<open>
  Claim C4, amended. The QA value is masked exactly where the LAI or the biome is
  masked. Where both are unmasked it is \<open>bit0 OR (bit1 << 1) OR (bit2 << 2)\<close> of the three
  masks; bit 1 is set exactly when the LAI is outside [0, 8] and bit 2 exactly when the
  biome is 0; two pixels with the same biome that both have a QA value have the same
  bit 2, whatever their reflectance, sensor, hull table and LAI. In the output of
  \<^verbatim>\<open>getLAIImage\<close> a QA value has bit 2 set exactly when the biome is 0, and with
  non-vegetated retrieval disabled no QA value has bit 2 set: a pixel of biome 0 has no
  LAI there and so no QA value.
\<close>

theorem qa_encoder_bits:
  "(getLAIQA hull_table t sn lai = None \<longleftrightarrow> lai = None \<or> biome2 t = None)
   \<and> (lai = Some v \<and> biome2 t = Some b \<longrightarrow>
        (\<exists>q b0. getLAIQA hull_table t sn lai = Some q
           \<and> in_mask (hull_table sn) t = Some (of_bool b0)
           \<and> out_mask lai = Some (of_bool (\<not> (0 \<le> v \<and> v \<le> 8)))
           \<and> biome_mask t = Some (of_bool (b = 0))
           \<and> q = of_bool b0 OR push_bit 1 (of_bool (\<not> (0 \<le> v \<and> v \<le> 8)))
                   OR push_bit 2 (of_bool (b = 0))
           \<and> (bit q 0 \<longleftrightarrow> b0) \<and> (bit q 1 \<longleftrightarrow> \<not> (0 \<le> v \<and> v \<le> 8)) \<and> (bit q 2 \<longleftrightarrow> b = 0)))
   \<and> (getLAIQA hull_table t sn lai = Some qa \<and> getLAIQA hull_table' t' sn' lai' = Some qb
        \<and> biome2 t' = biome2 t \<longrightarrow> (bit qb 2 \<longleftrightarrow> bit qa 2))
   \<and> (QA (getLAIImage_px tr asset hull_table sn t nonveg) = Some qc \<longrightarrow>
        (bit qc 2 \<longleftrightarrow> biome2 t = Some 0))
   \<and> (QA (getLAIImage_px tr asset hull_table sn t False) = Some qd \<longrightarrow> \<not> bit qd 2)"
proof -
  note bit2 = getLAIQA_bit2
  have 1: "getLAIQA hull_table t sn lai = None \<longleftrightarrow> lai = None \<or> biome2 t = None"
    by (rule getLAIQA_None_iff)
  have 2: "\<exists>q b0. getLAIQA hull_table t sn lai = Some q
           \<and> in_mask (hull_table sn) t = Some (of_bool b0)
           \<and> out_mask lai = Some (of_bool (\<not> (0 \<le> v \<and> v \<le> 8)))
           \<and> biome_mask t = Some (of_bool (b = 0))
           \<and> q = of_bool b0 OR push_bit 1 (of_bool (\<not> (0 \<le> v \<and> v \<le> 8)))
                   OR push_bit 2 (of_bool (b = 0))
           \<and> (bit q 0 \<longleftrightarrow> b0) \<and> (bit q 1 \<longleftrightarrow> \<not> (0 \<le> v \<and> v \<le> 8)) \<and> (bit q 2 \<longleftrightarrow> b = 0)"
    if h: "lai = Some v \<and> biome2 t = Some b"
  proof -
    from h have "getLAIQA hull_table t sn lai \<noteq> None"
      by (simp add: getLAIQA_None_iff)
    then obtain q where g: "getLAIQA hull_table t sn lai = Some q" by auto
    obtain b0 v' b' where b0: "in_mask (hull_table sn) t = Some (of_bool b0)"
      and v': "lai = Some v'" and b': "biome2 t = Some b'"
      and q: "q = of_bool b0 OR push_bit 1 (of_bool (\<not> (0 \<le> v' \<and> v' \<le> lai_max)))
                   OR push_bit 2 (of_bool (b' = 0))"
      using getLAIQA_Some [OF g] by blast
    from h v' b' have e: "v' = v" "b' = b" by simp_all
    have q': "q = of_bool b0 OR push_bit 1 (of_bool (\<not> (0 \<le> v \<and> v \<le> 8)))
                   OR push_bit 2 (of_bool (b = 0))"
      using q by (simp only: e lai_max_def)
    note bits = qa_bits [OF q']
    have "out_mask lai = Some (of_bool (\<not> (0 \<le> v \<and> v \<le> 8)))"
      using h by (simp add: out_mask_eq lai_max_def)
    moreover have "biome_mask t = Some (of_bool (b = 0))"
      using h by (simp add: biome_mask_eq)
    ultimately show ?thesis using g b0 q' bits by blast
  qed
  have 3: "bit qb 2 \<longleftrightarrow> bit qa 2"
    if h: "getLAIQA hull_table t sn lai = Some qa \<and> getLAIQA hull_table' t' sn' lai' = Some qb
        \<and> biome2 t' = biome2 t"
    using h bit2 [of hull_table t sn lai qa] bit2 [of hull_table' t' sn' lai' qb] by simp
  have 4: "bit qc 2 \<longleftrightarrow> biome2 t = Some 0"
    if h: "QA (getLAIImage_px tr asset hull_table sn t nonveg) = Some qc"
  proof -
    obtain v where "getLAIQA hull_table t sn (Some v) = Some qc"
      using getLAIImage_px_QA_Some [OF h] by blast
    then show ?thesis by (rule bit2)
  qed
  have 5: "\<not> bit qd 2"
    if h: "QA (getLAIImage_px tr asset hull_table sn t False) = Some qd"
  proof -
    obtain v b where g: "getLAIQA hull_table t sn (Some v) = Some qd"
        and b: "biome2 t = Some b" "b \<in> set (biomes False)"
      using getLAIImage_px_QA_Some [OF h] by blast
    from b(2) have "b \<noteq> 0" by (auto simp: biomes_def)
    with b(1) bit2 [OF g] show ?thesis by simp
  qed
  from 1 2 3 4 5 show ?thesis by blast
qed

lemma qa_nonveg_high:
  "QA (getLAIImage_px (rf_const 9.1) [] hull_red5 ''LC08'' (px_forest\<lparr>biome2 := Some 0\<rparr>) True)
     = Some 6"
  by (simp add: lai_eval qa_eval px_forest_def hull_red5_def rf_const_def
      del: not_None_eq map_option_eq_Some)

lemma qa_nonveg_bright:
  "getLAIQA hull_red5 (px_forest\<lparr>biome2 := Some 0, red := Some 6000\<rparr>) ''LE07'' (Some 1) = Some 5"
  by (simp add: qa_eval px_forest_def hull_red5_def)

lemma qa_nonveg_direct:
  "getLAIQA hull_red5 (px_forest\<lparr>biome2 := Some 0\<rparr>) ''LC08'' (Some 9.1) = Some 6"
  by (simp add: qa_eval px_forest_def hull_red5_def)

text \<open>
  Claim C4, witness: with non-vegetated retrieval enabled, a pixel of biome 0 with the
  LAI 9.1 has the QA value 6 in the output of the retrieval, bits 1 and 2; another pixel
  of biome 0 with different reflectance, sensor and LAI has the QA value 5, with the same
  bit 2; with non-vegetated retrieval disabled the forest example pixel has the QA value
  0, bit 2 clear.
\<close>

theorem qa_encoder_bits_witness:
  "QA (getLAIImage_px (rf_const 9.1) [] hull_red5 ''LC08'' (px_forest\<lparr>biome2 := Some 0\<rparr>) True)
     = Some 6
   \<and> bit (6 :: 8 word) 2
   \<and> getLAIQA hull_red5 (px_forest\<lparr>biome2 := Some 0\<rparr>) ''LC08'' (Some 9.1) = Some 6
   \<and> (6 :: 8 word) = of_bool False OR push_bit 1 (of_bool True) OR push_bit 2 (of_bool True)
   \<and> getLAIQA hull_red5 (px_forest\<lparr>biome2 := Some 0, red := Some 6000\<rparr>) ''LE07'' (Some 1) = Some 5
   \<and> bit (5 :: 8 word) 2
   \<and> QA (getLAIImage_px (rf_const 2.5) [] hull_red5 ''LC08'' px_forest False) = Some 0
   \<and> \<not> bit (0 :: 8 word) 2"
proof -
  let ?t0 = "px_forest\<lparr>biome2 := Some 0\<rparr>"
  have 1: "bit (6 :: 8 word) 2"
    using qa_nonveg_high
      qa_encoder_bits [where tr = "rf_const 9.1" and asset = "[]" and hull_table = hull_red5
        and sn = "''LC08''" and t = ?t0 and nonveg = True and qc = 6,
        THEN conjunct2, THEN conjunct2, THEN conjunct2, THEN conjunct1]
    by simp
  have 2: "(6 :: 8 word) = of_bool False OR push_bit 1 (of_bool True) OR push_bit 2 (of_bool True)"
    using qa_nonveg_direct
      qa_encoder_bits [where hull_table = hull_red5 and sn = "''LC08''" and t = ?t0
        and lai = "Some 9.1" and v = "9.1" and b = 0, THEN conjunct2, THEN conjunct1]
    by simp
  have "bit (5 :: 8 word) 2 \<longleftrightarrow> bit (6 :: 8 word) 2"
    using qa_nonveg_direct qa_nonveg_bright
      qa_encoder_bits [where hull_table = hull_red5 and sn = "''LC08''" and t = ?t0
        and lai = "Some 9.1" and qa = 6 and hull_table' = hull_red5
        and t' = "px_forest\<lparr>biome2 := Some 0, red := Some 6000\<rparr>"
        and sn' = "''LE07''" and lai' = "Some 1" and qb = 5,
        THEN conjunct2, THEN conjunct2, THEN conjunct1]
    by simp
  with 1 have 3: "bit (5 :: 8 word) 2" by simp
  have 4: "\<not> bit (0 :: 8 word) 2"
    using qa_forest_in_hull
      qa_encoder_bits [where tr = "rf_const 2.5" and asset = "[]" and hull_table = hull_red5
        and sn = "''LC08''" and t = px_forest and qd = 0,
        THEN conjunct2, THEN conjunct2, THEN conjunct2, THEN conjunct2]
    by simp
  from qa_nonveg_high 1 qa_nonveg_direct 2 qa_nonveg_bright 3 qa_forest_in_hull 4
  show ?thesis by (intro conjI)
qed

lemma px_nonveg_masked:
  "getLAIImage_px (rf_const 2.5) [] hull_red5 ''LC08'' (px_forest\<lparr>biome2 := Some 0\<rparr>) False
     = \<lparr>LAI = None, QA = None\<rparr>"
  by (simp add: lai_eval qa_eval px_forest_def hull_red5_def rf_const_def
      del: not_None_eq map_option_eq_Some)

text \<open>
  Claim C4, counterexample: with non-vegetated retrieval disabled, the forest example
  pixel with biome 0 has no LAI value and its QA value is masked: bit 2 is not set there
  although the biome is 0.
\<close>

theorem qa_bit2_unset_where_masked:
  "biome2 (px_forest\<lparr>biome2 := Some 0\<rparr>) = Some 0
   \<and> QA (getLAIImage_px (rf_const 2.5) [] hull_red5 ''LC08'' (px_forest\<lparr>biome2 := Some 0\<rparr>) False)
       = None
   \<and> \<not> (\<exists>q. QA (getLAIImage_px (rf_const 2.5) [] hull_red5 ''LC08''
                 (px_forest\<lparr>biome2 := Some 0\<rparr>) False) = Some q \<and> bit q 2)"
  using px_nonveg_masked by simp

subsection \<open>The monthly validity mask and count\<close>

lemma bit0_and1: "(q AND 1) \<noteq> 0 \<longleftrightarrow> bit q 0" for q :: "8 word"
  using bit_iff_and_push_bit_not_eq_0 [of q 0] by simp

lemma bit1_and2: "(q AND 2) \<noteq> 0 \<longleftrightarrow> bit q 1" for q :: "8 word"
  using bit_iff_and_push_bit_not_eq_0 [of q 1] by simp

lemma validMaskFromQA_Some:
  "validMaskFromQA (Some q) = Some (\<not> (bit q 0 \<or> bit q 1))"
  using bit0_and1 [of q] bit1_and2 [of q]
  by (simp add: validMaskFromQA_def ee_not_def ee_or_def lift2_def Let_def)

lemma validMaskFromQA_None: "validMaskFromQA None = None"
  by (simp add: validMaskFromQA_def ee_not_def ee_or_def lift2_def)

lemma laiColl_img_iff:
  "laiColl_img p \<noteq> None \<longleftrightarrow> LAI p \<noteq> None \<and> (\<exists>q. QA p = Some q \<and> \<not> bit q 0 \<and> \<not> bit q 1)"
  by (cases "QA p")
     (auto simp: laiColl_img_def Let_def updateMask_def validMaskFromQA_Some validMaskFromQA_None)

lemma laiColl_img_eq:
  "laiColl_img p = (if \<exists>q. QA p = Some q \<and> \<not> bit q 0 \<and> \<not> bit q 1 then LAI p else None)"
  by (cases "QA p")
     (auto simp: laiColl_img_def Let_def updateMask_def validMaskFromQA_Some validMaskFromQA_None)

lemma ee_count_laiColl:
  "ee_count (laiColl lstack) = length (filter (\<lambda>p. laiColl_img p \<noteq> None) lstack)"
  by (induction lstack) (simp_all add: ee_count_def laiColl_def)

lemma obs_count_eq: "obs_count lstack = length (filter (\<lambda>p. laiColl_img p \<noteq> None) lstack)"
proof (cases lstack)
  case Nil
  then show ?thesis
    by (simp add: obs_count_def safeColl_def laiColl_def empty_img_def updateMask_def ee_count_def)
next
  case (Cons x xs)
  then have "safeColl lstack = laiColl lstack"
    by (simp add: safeColl_def laiColl_def)
  then show ?thesis
    by (simp add: obs_count_def ee_count_laiColl)
qed

lemma bit2_or4: "bit (q OR 4) 0 = bit q 0 \<and> bit (q OR 4) 1 = bit q 1" for q :: "8 word"
proof -
  have "(4 :: 8 word) = push_bit 2 1" by simp
  then show ?thesis
    by (simp only: bit_or_iff bit_push_bit_iff) (simp add: bit_1_iff)
qed


lemma getLAIImage_px_LAI_QA:
  "LAI (getLAIImage_px tr asset h sn t nonveg) = None \<longleftrightarrow> QA (getLAIImage_px tr asset h sn t nonveg) = None"
proof -
  have "lai_img_final tr asset sn t nonveg = None" if "biome2 t = None"
  proof -
    from that have "biome2 t \<notin> Some ` set (biomes nonveg)" by simp
    then show ?thesis by (rule lai_img_final_unmatched)
  qed
  then show ?thesis
    by (auto simp: getLAIImage_px_def Let_def getLAIQA_None_iff)
qed

text \<open>
  Claim C1. The validity mask of a QA value is \<open>NOT (bit0 OR bit1)\<close> and does not depend
  on bit 2. A pixel of a per-scene image stays in the composite stack exactly when its
  LAI band is unmasked and its QA value has bits 0 and 1 clear; for an image
  \<^verbatim>\<open>getLAIImage\<close> returns the LAI band is unmasked wherever the QA band is. The
  observation count is the number of scenes of the month that stay.
\<close>

theorem monthly_validity:
  "validMaskFromQA (Some q) = Some (\<not> (bit q 0 \<or> bit q 1))
   \<and> validMaskFromQA (Some (q OR 4)) = validMaskFromQA (Some q)
   \<and> (laiColl_img p \<noteq> None \<longleftrightarrow>
        LAI p \<noteq> None \<and> (\<exists>q. QA p = Some q \<and> \<not> bit q 0 \<and> \<not> bit q 1))
   \<and> (laiColl_img (getLAIImage_px tr asset h sn t nonveg) \<noteq> None \<longleftrightarrow>
        (\<exists>q. QA (getLAIImage_px tr asset h sn t nonveg) = Some q \<and> \<not> bit q 0 \<and> \<not> bit q 1))
   \<and> laiColl lstack
        = map (\<lambda>p. if \<exists>q. QA p = Some q \<and> \<not> bit q 0 \<and> \<not> bit q 1 then LAI p else None) lstack
   \<and> obs_count lstack
        = length (filter (\<lambda>p. LAI p \<noteq> None \<and> (\<exists>q. QA p = Some q \<and> \<not> bit q 0 \<and> \<not> bit q 1)) lstack)"
proof (intro conjI)
  show "validMaskFromQA (Some q) = Some (\<not> (bit q 0 \<or> bit q 1))"
    by (rule validMaskFromQA_Some)
  show "validMaskFromQA (Some (q OR 4)) = validMaskFromQA (Some q)"
    using bit2_or4 [of q] by (simp only: validMaskFromQA_Some)
  show "laiColl_img p \<noteq> None \<longleftrightarrow>
        LAI p \<noteq> None \<and> (\<exists>q. QA p = Some q \<and> \<not> bit q 0 \<and> \<not> bit q 1)"
    by (rule laiColl_img_iff)
  show "laiColl_img (getLAIImage_px tr asset h sn t nonveg) \<noteq> None \<longleftrightarrow>
        (\<exists>q. QA (getLAIImage_px tr asset h sn t nonveg) = Some q \<and> \<not> bit q 0 \<and> \<not> bit q 1)"
    using getLAIImage_px_LAI_QA [of tr asset h sn t nonveg]
    by (simp only: laiColl_img_iff) blast
  show "laiColl lstack
        = map (\<lambda>p. if \<exists>q. QA p = Some q \<and> \<not> bit q 0 \<and> \<not> bit q 1 then LAI p else None) lstack"
    by (simp add: laiColl_def laiColl_img_eq)
  show "obs_count lstack
        = length (filter (\<lambda>p. LAI p \<noteq> None \<and> (\<exists>q. QA p = Some q \<and> \<not> bit q 0 \<and> \<not> bit q 1)) lstack)"
    by (simp only: obs_count_eq laiColl_img_iff)
qed

text \<open>Claim C1, witness: five scenes with QA 0, 2, 4, 1 and masked; two are counted.\<close>

theorem monthly_validity_witness:
  "validMaskFromQA (Some 4) = Some True
   \<and> validMaskFromQA (Some 1) = Some False
   \<and> validMaskFromQA (Some 2) = Some False
   \<and> laiColl [\<lparr>LAI = Some 234, QA = Some 0\<rparr>, \<lparr>LAI = Some 910, QA = Some 2\<rparr>,
               \<lparr>LAI = Some 300, QA = Some 4\<rparr>, \<lparr>LAI = Some 150, QA = Some 1\<rparr>,
               \<lparr>LAI = None, QA = None\<rparr>]
        = [Some 234, None, Some 300, None, None]
   \<and> obs_count [\<lparr>LAI = Some 234, QA = Some 0\<rparr>, \<lparr>LAI = Some 910, QA = Some 2\<rparr>,
                 \<lparr>LAI = Some 300, QA = Some 4\<rparr>, \<lparr>LAI = Some 150, QA = Some 1\<rparr>,
                 \<lparr>LAI = None, QA = None\<rparr>] = 2"
proof -
  note t = monthly_validity
  have 1: "validMaskFromQA (Some 4) = Some True"
    using t [where q = 4, THEN conjunct1] by simp
  have 2: "validMaskFromQA (Some 1) = Some False"
    using t [where q = 1, THEN conjunct1] by simp
  have 3: "validMaskFromQA (Some 2) = Some False"
    using t [where q = 2, THEN conjunct1] by simp
  have 4: "laiColl [\<lparr>LAI = Some 234, QA = Some 0\<rparr>, \<lparr>LAI = Some 910, QA = Some 2\<rparr>,
               \<lparr>LAI = Some 300, QA = Some 4\<rparr>, \<lparr>LAI = Some 150, QA = Some 1\<rparr>,
               \<lparr>LAI = None, QA = None\<rparr>]
        = [Some 234, None, Some 300, None, None]"
    using t [where lstack = "[\<lparr>LAI = Some 234, QA = Some 0\<rparr>, \<lparr>LAI = Some 910, QA = Some 2\<rparr>,
               \<lparr>LAI = Some 300, QA = Some 4\<rparr>, \<lparr>LAI = Some 150, QA = Some 1\<rparr>,
               \<lparr>LAI = None, QA = None\<rparr>]",
             THEN conjunct2, THEN conjunct2, THEN conjunct2, THEN conjunct2, THEN conjunct1]
    by simp
  have 5: "obs_count [\<lparr>LAI = Some 234, QA = Some 0\<rparr>, \<lparr>LAI = Some 910, QA = Some 2\<rparr>,
                 \<lparr>LAI = Some 300, QA = Some 4\<rparr>, \<lparr>LAI = Some 150, QA = Some 1\<rparr>,
                 \<lparr>LAI = None, QA = None\<rparr>] = 2"
    using t [where lstack = "[\<lparr>LAI = Some 234, QA = Some 0\<rparr>, \<lparr>LAI = Some 910, QA = Some 2\<rparr>,
               \<lparr>LAI = Some 300, QA = Some 4\<rparr>, \<lparr>LAI = Some 150, QA = Some 1\<rparr>,
               \<lparr>LAI = None, QA = None\<rparr>]",
             THEN conjunct2, THEN conjunct2, THEN conjunct2, THEN conjunct2, THEN conjunct2]
    by simp
  from 1 2 3 4 5 show ?thesis by (intro conjI)
qed

subsection \<open>Unmapped land-cover codes\<close>

lemma remap_unmapped: "c \<notin> set fromL \<Longrightarrow> remap fromL toL (Some c) = None"
proof -
  assume "c \<notin> set fromL"
  then have "c \<notin> fst ` set (zip fromL toL)"
    by (auto dest: set_zip_leftD)
  then show ?thesis by (simp add: remap_def map_of_eq_None_iff)
qed

lemma laiColl_img_masked: "laiColl_img \<lparr>LAI = None, QA = None\<rparr> = None"
  by (simp add: laiColl_img_eq)

lemma getLAIImage_train:
  assumes "getLAIImage tr asset h img landcover lo la nonveg = Inr out"
  shows "\<exists>s p sz sa. out = getLAIImage_px tr asset h s (getTrainImg_px p landcover lo la sz sa) nonveg"
  using assms by (auto simp: getLAIImage_def getTrainImg_def bindE_Inr_iff)

text \<open>
  Claim C10. For a land-cover code outside the remap table the biome band is masked, so
  both bands of the per-scene output are masked at the pixel, for every scene, sensor
  and regressor, and the scene does not change the monthly observation count.
\<close>

theorem unmapped_landcover:
  "landcover = Some c \<and> c \<notin> set fromList \<longrightarrow>
      biome landcover = None
    \<and> biome2 (getTrainImg_px p landcover lo la sz sa) = None
    \<and> getLAIImage_px tr asset h sn (getTrainImg_px p landcover lo la sz sa) nonveg
        = \<lparr>LAI = None, QA = None\<rparr>
    \<and> (getLAIImage tr asset h img landcover lo la nonveg = Inr out \<longrightarrow> out = \<lparr>LAI = None, QA = None\<rparr>)
    \<and> obs_count (xs @ getLAIImage_px tr asset h sn (getTrainImg_px p landcover lo la sz sa) nonveg # ys)
        = obs_count (xs @ ys)"
proof (intro impI)
  assume h: "landcover = Some c \<and> c \<notin> set fromList"
  then have b: "biome landcover = None"
    by (simp add: biome_def remap_unmapped)
  have t: "biome2 (getTrainImg_px p' landcover lo la sz' sa') = None" for p' sz' sa'
    by (simp add: getTrainImg_px_def b Let_def)
  have m: "getLAIImage_px tr asset h s' (getTrainImg_px p' landcover lo la sz' sa') nonveg
        = \<lparr>LAI = None, QA = None\<rparr>" for s' p' sz' sa'
  proof -
    have "biome2 (getTrainImg_px p' landcover lo la sz' sa') \<notin> Some ` set (biomes nonveg)"
      by (simp add: t)
    then have "lai_img_final tr asset s' (getTrainImg_px p' landcover lo la sz' sa') nonveg = None"
      by (rule lai_img_final_unmatched)
    then show ?thesis by (rule getLAIImage_px_masked)
  qed
  have e: "out = \<lparr>LAI = None, QA = None\<rparr>"
    if "getLAIImage tr asset h img landcover lo la nonveg = Inr out"
    using getLAIImage_train [OF that] m by auto
  have o: "obs_count (xs @ getLAIImage_px tr asset h sn (getTrainImg_px p landcover lo la sz sa) nonveg # ys)
        = obs_count (xs @ ys)"
    by (simp add: obs_count_eq m laiColl_img_masked)
  from b t m e o show "biome landcover = None
    \<and> biome2 (getTrainImg_px p landcover lo la sz sa) = None
    \<and> getLAIImage_px tr asset h sn (getTrainImg_px p landcover lo la sz sa) nonveg
        = \<lparr>LAI = None, QA = None\<rparr>
    \<and> (getLAIImage tr asset h img landcover lo la nonveg = Inr out \<longrightarrow> out = \<lparr>LAI = None, QA = None\<rparr>)
    \<and> obs_count (xs @ getLAIImage_px tr asset h sn (getTrainImg_px p landcover lo la sz sa) nonveg # ys)
        = obs_count (xs @ ys)"
    by blast
qed


lemma landcover_13: "(13 :: real) \<notin> set fromList"
  by (simp add: fromList_def)

lemma year_of_millis_L8: "year_of_millis 963619200000 = 2000"
proof -
  have z: "\<lfloor>963619200000 / 86400000 :: real\<rfloor> + 719468 = (730621::int)" by simp
  have era: "(730621::int) div 146097 = 5" and doe: "(730621::int) mod 146097 = 136"
    by simp_all
  have yoe: "((136::int) - 136 div 1460 + 136 div 36524 - 136 div 146096) div 365 = 0"
    by simp
  have doy: "(136::int) - (365 * 0 + 0 div 4 - 0 div 100) = 136" by simp
  have mp: "(5 * (136::int) + 2) div 153 = 4" by simp
  show ?thesis
    unfolding year_of_millis_def Let_def z era doe yoe doy mp by simp
qed

lemma nlcd_year_L8: "nlcd_year scene_L8 = Inr 2001"
proof -
  have "props scene_L8 ''system:time_start'' = Some (PNum 963619200000)"
    by (simp add: scene_L8_def)
  then show ?thesis
    by (simp add: nlcd_year_def ee_Number_def year_of_millis_L8 nlcd_dict_def)
qed

lemma sensor_L8: "sensor scene_L8 = Inr ''LC08''"
  by (simp add: image_eval scene_L8_def)

lemma getTrainImg_L8:
  "\<exists>p sz sa. getTrainImg scene_L8 lc lo la = Inr (getTrainImg_px p lc lo la sz sa)"
  unfolding getTrainImg_def nlcd_year_L8
  by (simp add: processLandsat_def image_eval maskLandsat_def
      getVIs_def solarZenith_def solarAzimuth_def landsat_px_of_def scene_L8_def
      del: not_None_eq map_option_eq_Some) blast

lemma getLAIImage_L8_unmapped:
  "getLAIImage (rf_const 2.5) [] hull_red5 scene_L8 (Some 13) (- 90) 40 False
     = Inr \<lparr>LAI = None, QA = None\<rparr>"
proof -
  obtain p sz sa where t: "getTrainImg scene_L8 (Some 13) (- 90) 40
      = Inr (getTrainImg_px p (Some 13) (- 90) 40 sz sa)"
    using getTrainImg_L8 by blast
  have "biome2 (getTrainImg_px p (Some 13) (- 90) 40 sz sa) = None"
    by (simp add: getTrainImg_px_def Let_def biome_def remap_unmapped landcover_13)
  then have "biome2 (getTrainImg_px p (Some 13) (- 90) 40 sz sa) \<notin> Some ` set (biomes False)"
    by simp
  then have "lai_img_final (rf_const 2.5) [] ''LC08'' (getTrainImg_px p (Some 13) (- 90) 40 sz sa)
      False = None"
    by (rule lai_img_final_unmatched)
  then have "getLAIImage_px (rf_const 2.5) [] hull_red5 ''LC08''
      (getTrainImg_px p (Some 13) (- 90) 40 sz sa) False = \<lparr>LAI = None, QA = None\<rparr>"
    by (rule getLAIImage_px_masked)
  then show ?thesis by (simp add: getLAIImage_def sensor_L8 t)
qed

text \<open>Claim C10, witness: land-cover code 13 under the Landsat 8 example scene.\<close>

theorem unmapped_landcover_witness:
  "(13 :: real) \<notin> set fromList
   \<and> biome (Some 13) = None
   \<and> getLAIImage_px (rf_const 2.5) [] hull_red5 ''LC08''
        (getTrainImg_px px_clear (Some 13) (- 90) 40 30 150) False = \<lparr>LAI = None, QA = None\<rparr>
   \<and> getLAIImage (rf_const 2.5) [] hull_red5 scene_L8 (Some 13) (- 90) 40 False
        = Inr \<lparr>LAI = None, QA = None\<rparr>
   \<and> obs_count ([\<lparr>LAI = Some 234, QA = Some 0\<rparr>]
        @ getLAIImage_px (rf_const 2.5) [] hull_red5 ''LC08''
            (getTrainImg_px px_clear (Some 13) (- 90) 40 30 150) False # [])
      = obs_count ([\<lparr>LAI = Some 234, QA = Some 0\<rparr>] @ [])"
proof -
  have h: "Some (13 :: real) = Some 13 \<and> (13 :: real) \<notin> set fromList"
    using landcover_13 by simp
  note t = unmapped_landcover [where landcover = "Some 13" and c = 13 and p = px_clear
      and lo = "- 90" and la = 40 and sz = 30 and sa = 150 and tr = "rf_const 2.5" and asset = "[]"
      and h = hull_red5 and sn = "''LC08''" and nonveg = False and img = scene_L8
      and out = "\<lparr>LAI = None, QA = None\<rparr>" and xs = "[\<lparr>LAI = Some 234, QA = Some 0\<rparr>]"
      and ys = "[]", THEN mp, OF h]
  have 1: "biome (Some 13) = None"
    by (rule t [THEN conjunct1])
  have 2: "getLAIImage_px (rf_const 2.5) [] hull_red5 ''LC08''
        (getTrainImg_px px_clear (Some 13) (- 90) 40 30 150) False = \<lparr>LAI = None, QA = None\<rparr>"
    by (rule t [THEN conjunct2, THEN conjunct2, THEN conjunct1])
  have 3: "obs_count ([\<lparr>LAI = Some 234, QA = Some 0\<rparr>]
        @ getLAIImage_px (rf_const 2.5) [] hull_red5 ''LC08''
            (getTrainImg_px px_clear (Some 13) (- 90) 40 30 150) False # [])
      = obs_count ([\<lparr>LAI = Some 234, QA = Some 0\<rparr>] @ [])"
    by (rule t [THEN conjunct2, THEN conjunct2, THEN conjunct2, THEN conjunct2])
  have "\<lparr>LAI = None, QA = None\<rparr> = \<lparr>LAI = None, QA = None :: 8 word option\<rparr>"
    by (rule t [THEN conjunct2, THEN conjunct2, THEN conjunct2, THEN conjunct1, THEN mp,
          OF getLAIImage_L8_unmapped])
  from landcover_13 1 2 getLAIImage_L8_unmapped 3 show ?thesis by (intro conjI)
qed

subsection \<open>Storage of the LAI value\<close>

lemma LAI_encode_uint: "uint (LAI_encode v) = max 0 (min 65535 (round (dbl (v * 100))))"
proof -
  let ?k = "max 0 (min 65535 (round (dbl (v * 100))))"
  have "0 \<le> ?k" "?k < 2 ^ 16" by simp_all
  then show ?thesis
    unfolding LAI_encode_def by (simp add: uint_word_of_int take_bit_int_eq_self)
qed

lemma round_dbl_bounds:
  assumes "0 \<le> v" "v \<le> (8::real)"
  shows "0 \<le> round (dbl (v * 100))" "round (dbl (v * 100)) \<le> 800"
    and "\<bar>of_int (round (dbl (v * 100))) - v * 100\<bar> \<le> 1 / 2 + 1 / 2 ^ 44"
proof -
  have "\<bar>v * 100\<bar> < 1024" using assms by simp
  then have e: "\<bar>dbl (v * 100) - v * 100\<bar> \<le> 1 / 2 ^ 44" by (rule dbl_err)
  have r: "\<bar>of_int (round (dbl (v * 100))) - dbl (v * 100)\<bar> \<le> 1 / 2"
    by (rule of_int_round_abs_le)
  from e r show "\<bar>of_int (round (dbl (v * 100))) - v * 100\<bar> \<le> 1 / 2 + 1 / 2 ^ 44"
    by linarith
  have s: "(1 :: real) / 2 ^ 44 < 1 / 2" by simp
  from e s assms have y: "- (1 / 2) \<le> dbl (v * 100)" "dbl (v * 100) < 800 + 1 / 2"
    by linarith+
  from y(1) show "0 \<le> round (dbl (v * 100))"
    by (simp add: round_def)
  from y(2) show "round (dbl (v * 100)) \<le> 800"
    by (simp add: round_def floor_le_iff)
qed

lemma decode_err:
  fixes k v :: real
  assumes "\<bar>k - v * 100\<bar> \<le> 1 / 2 + 1 / 2 ^ 44"
  shows "\<bar>k * 0.01 - v\<bar> \<le> 0.005 + 1 / (100 * 2 ^ 44)"
proof -
  have "\<bar>k * 0.01 - v\<bar> = \<bar>k - v * 100\<bar> / 100" by (simp add: abs_if)
  also have "\<dots> \<le> (1 / 2 + 1 / 2 ^ 44) / 100"
    using assms by (intro divide_right_mono) simp_all
  also have "\<dots> = 0.005 + 1 / (100 * 2 ^ 44)" by simp
  finally show ?thesis .
qed

lemma LAI_encode_in_range:
  assumes "0 \<le> v" "v \<le> 8"
  shows "unat (LAI_encode v) \<le> 800"
    and "\<bar>real (unat (LAI_encode v)) - v * 100\<bar> \<le> 1 / 2 + 1 / 2 ^ 44"
    and "\<bar>LAI_decode (LAI_encode v) - v\<bar> \<le> 0.005 + 1 / (100 * 2 ^ 44)"
proof -
  note b = round_dbl_bounds [OF assms]
  have u: "uint (LAI_encode v) = round (dbl (v * 100))"
    using b(1,2) by (simp add: LAI_encode_uint)
  have n: "int (unat (LAI_encode v)) = round (dbl (v * 100))"
    using u by simp
  then show "unat (LAI_encode v) \<le> 800" using b(2) by linarith
  have "real (unat (LAI_encode v)) = of_int (round (dbl (v * 100)))"
    using n by (metis of_int_of_nat_eq)
  with b(3) show d: "\<bar>real (unat (LAI_encode v)) - v * 100\<bar> \<le> 1 / 2 + 1 / 2 ^ 44"
    by simp
  then show "\<bar>LAI_decode (LAI_encode v) - v\<bar> \<le> 0.005 + 1 / (100 * 2 ^ 44)"
    unfolding LAI_decode_def LAI_scale_factor_def by (rule decode_err)
qed

lemma stack_entry_in_range:
  assumes "laiColl_img (getLAIImage_px tr asset h sn t nonveg) = Some w"
  shows "\<exists>v. lai_img_final tr asset sn t nonveg = Some v \<and> 0 \<le> v \<and> v \<le> 8 \<and> w = LAI_encode v"
proof -
  let ?p = "getLAIImage_px tr asset h sn t nonveg"
  from assms have ne: "laiColl_img ?p \<noteq> None" by simp
  have "LAI ?p \<noteq> None \<and> (\<exists>q. QA ?p = Some q \<and> \<not> bit q 0 \<and> \<not> bit q 1)"
    by (rule laiColl_img_iff [THEN iffD1, OF ne])
  then obtain q where q: "QA ?p = Some q" and b: "\<not> bit q 1" and b0: "\<not> bit q 0"
    by blast
  have "laiColl_img ?p = LAI ?p"
    using q b b0 by (simp only: laiColl_img_eq) simp
  with assms have w: "map_option LAI_encode (lai_img_final tr asset sn t nonveg) = Some w"
    by (simp only: getLAIImage_px_sel)
  then obtain v where v: "lai_img_final tr asset sn t nonveg = Some v" and e: "w = LAI_encode v"
    by (cases "lai_img_final tr asset sn t nonveg") simp_all
  from q v have g: "getLAIQA h t sn (Some v) = Some q"
    by (simp only: getLAIImage_px_sel)
  obtain c0 and v' b' :: real where v': "Some v = Some v'"
      and qq: "q = of_bool c0 OR push_bit 1 (of_bool (\<not> (0 \<le> v' \<and> v' \<le> lai_max)))
                   OR push_bit 2 (of_bool (b' = 0))"
    using getLAIQA_Some [OF g] by blast
  have "bit q 1 \<longleftrightarrow> \<not> (0 \<le> v' \<and> v' \<le> lai_max)"
    by (rule qa_bits(2) [OF qq])
  with b v' have "0 \<le> v \<and> v \<le> 8" by (simp add: lai_max_def)
  with v e show ?thesis by blast
qed

lemma code_above_800_flagged:
  assumes "LAI (getLAIImage_px tr asset h sn t nonveg) = Some w" "800 < unat w"
  shows "\<exists>q. QA (getLAIImage_px tr asset h sn t nonveg) = Some q \<and> bit q 1"
proof -
  let ?p = "getLAIImage_px tr asset h sn t nonveg"
  from assms(1) have "map_option LAI_encode (lai_img_final tr asset sn t nonveg) = Some w"
    by (simp only: getLAIImage_px_sel)
  then obtain v where v: "lai_img_final tr asset sn t nonveg = Some v" and e: "w = LAI_encode v"
    by (cases "lai_img_final tr asset sn t nonveg") simp_all
  have "QA ?p \<noteq> None"
    using assms(1) getLAIImage_px_LAI_QA [of tr asset h sn t nonveg] by simp
  then obtain q where q: "QA ?p = Some q" by auto
  from q v have g: "getLAIQA h t sn (Some v) = Some q"
    by (simp only: getLAIImage_px_sel)
  obtain c0 and v' b' :: real where v': "Some v = Some v'"
      and qq: "q = of_bool c0 OR push_bit 1 (of_bool (\<not> (0 \<le> v' \<and> v' \<le> lai_max)))
                   OR push_bit 2 (of_bool (b' = 0))"
    using getLAIQA_Some [OF g] by blast
  have b1: "bit q 1 \<longleftrightarrow> \<not> (0 \<le> v' \<and> v' \<le> lai_max)"
    by (rule qa_bits(2) [OF qq])
  have "\<not> (0 \<le> v \<and> v \<le> 8)"
  proof
    assume "0 \<le> v \<and> v \<le> 8"
    then have "unat (LAI_encode v) \<le> 800" using LAI_encode_in_range(1) [of v] by simp
    with assms(2) e show False by simp
  qed
  with b1 v' have "bit q 1" by (simp add: lai_max_def)
  with q show ?thesis by blast
qed

text \<open>
  Claim C2, amended. The stored LAI code is the double product of the value and 100,
  rounded to the nearest integer and clamped to the range 0..65535 of the unsigned
  16-bit band; the value is not clamped to [0, 8]. For a regressor output \<open>v\<close> in [0, 8]
  the code is at most 800, it differs from \<open>v * 100\<close> by at most \<open>1 / 2 + 2\<^sup>-\<^sup>4\<^sup>4\<close>, and
  decoding it with the scale factor 0.01 gives \<open>v\<close> back to within
  \<open>0.005 + 2\<^sup>-\<^sup>4\<^sup>4 / 100\<close>; the rounding of the product to a double is what the second term
  bounds. In the output of \<^verbatim>\<open>getLAIImage\<close> a code above 800 carries QA bit 1, and every
  code that enters the monthly composite stack is at most 800.
\<close>

theorem LAI_encode_roundtrip:
  "uint (LAI_encode v) = max 0 (min 65535 (round (dbl (v * 100))))
   \<and> (0 \<le> v \<and> v \<le> 8 \<longrightarrow>
        unat (LAI_encode v) \<le> 800
        \<and> \<bar>real (unat (LAI_encode v)) - v * 100\<bar> \<le> 1 / 2 + 1 / 2 ^ 44
        \<and> \<bar>LAI_decode (LAI_encode v) - v\<bar> \<le> 0.005 + 1 / (100 * 2 ^ 44))
   \<and> LAI (getLAIImage_px tr asset h sn t nonveg)
        = map_option LAI_encode (lai_img_final tr asset sn t nonveg)
   \<and> (LAI (getLAIImage_px tr asset h sn t nonveg) = Some w \<and> 800 < unat w \<longrightarrow>
        (\<exists>q. QA (getLAIImage_px tr asset h sn t nonveg) = Some q \<and> bit q 1))
   \<and> (laiColl_img (getLAIImage_px tr asset h sn t nonveg) = Some w' \<longrightarrow> unat w' \<le> 800)"
proof (intro conjI impI)
  show "uint (LAI_encode v) = max 0 (min 65535 (round (dbl (v * 100))))"
    by (rule LAI_encode_uint)
next
  assume r: "0 \<le> v \<and> v \<le> 8"
  then show "unat (LAI_encode v) \<le> 800"
    and "\<bar>real (unat (LAI_encode v)) - v * 100\<bar> \<le> 1 / 2 + 1 / 2 ^ 44"
    and "\<bar>LAI_decode (LAI_encode v) - v\<bar> \<le> 0.005 + 1 / (100 * 2 ^ 44)"
    using LAI_encode_in_range [of v] by simp_all
next
  show "LAI (getLAIImage_px tr asset h sn t nonveg)
        = map_option LAI_encode (lai_img_final tr asset sn t nonveg)"
    by (rule getLAIImage_px_sel)
next
  assume "LAI (getLAIImage_px tr asset h sn t nonveg) = Some w \<and> 800 < unat w"
  then show "\<exists>q. QA (getLAIImage_px tr asset h sn t nonveg) = Some q \<and> bit q 1"
    using code_above_800_flagged by blast
next
  assume "laiColl_img (getLAIImage_px tr asset h sn t nonveg) = Some w'"
  then obtain u where "0 \<le> u" "u \<le> 8" "w' = LAI_encode u"
    using stack_entry_in_range by blast
  then show "unat w' \<le> 800"
    using LAI_encode_in_range(1) [of u] by simp
qed

lemma stack_entry_forest:
  "laiColl_img (getLAIImage_px (rf_const 2.5) [] hull_red5 ''LC08'' px_forest False) = Some 250"
  by (simp add: laiColl_img_def validMaskFromQA_def lai_eval qa_eval px_forest_def hull_red5_def
      rf_const_def LAI_encode_250 del: not_None_eq map_option_eq_Some)

lemma px_forest_lai_9:
  "getLAIImage_px (rf_const 9) [] hull_red5 ''LC08'' px_forest False
     = \<lparr>LAI = Some 900, QA = Some 2\<rparr>"
  by (simp add: lai_eval qa_eval px_forest_def hull_red5_def rf_const_def LAI_encode_900
      del: not_None_eq map_option_eq_Some)

text \<open>
  Claim C2, witness: the regressor output 2.5 is stored as 250 and decoded to within the
  bound, and the forest example pixel enters the composite stack with that code; with
  the regressor output 9 the pixel has the code 900 and QA bit 1.
\<close>

theorem LAI_encode_roundtrip_witness:
  "(0::real) \<le> 2.5 \<and> (2.5::real) \<le> 8 \<and> LAI_encode 2.5 = 250
   \<and> \<bar>LAI_decode 250 - 2.5\<bar> \<le> 0.005 + 1 / (100 * 2 ^ 44)
   \<and> laiColl_img (getLAIImage_px (rf_const 2.5) [] hull_red5 ''LC08'' px_forest False) = Some 250
   \<and> unat (250 :: 16 word) \<le> 800
   \<and> LAI (getLAIImage_px (rf_const 9) [] hull_red5 ''LC08'' px_forest False) = Some 900
   \<and> 800 < unat (900 :: 16 word)
   \<and> (\<exists>q. QA (getLAIImage_px (rf_const 9) [] hull_red5 ''LC08'' px_forest False) = Some q \<and> bit q 1)"
proof -
  note t = LAI_encode_roundtrip [where v = "2.5" and tr = "rf_const 2.5" and asset = "[]"
      and h = hull_red5 and sn = "''LC08''" and t = px_forest and nonveg = False and w' = 250]
  note t9 = LAI_encode_roundtrip [where tr = "rf_const 9" and asset = "[]"
      and h = hull_red5 and sn = "''LC08''" and t = px_forest and nonveg = False and w = 900]
  have 1: "\<bar>LAI_decode 250 - 2.5\<bar> \<le> 0.005 + 1 / (100 * 2 ^ 44)"
    using t [THEN conjunct2, THEN conjunct1] by (simp add: LAI_encode_250)
  have 2: "unat (250 :: 16 word) \<le> 800"
    using stack_entry_forest t [THEN conjunct2, THEN conjunct2, THEN conjunct2, THEN conjunct2]
    by simp
  have 3: "LAI (getLAIImage_px (rf_const 9) [] hull_red5 ''LC08'' px_forest False) = Some 900"
    by (simp add: px_forest_lai_9)
  have 4: "800 < unat (900 :: 16 word)" by simp
  have 5: "\<exists>q. QA (getLAIImage_px (rf_const 9) [] hull_red5 ''LC08'' px_forest False) = Some q
      \<and> bit q 1"
    using 3 4 t9 [THEN conjunct2, THEN conjunct2, THEN conjunct2, THEN conjunct1] by blast
  have 0: "LAI_encode 2.5 = 250" by (simp add: LAI_encode_250)
  from 0 1 stack_entry_forest 2 3 4 5 show ?thesis by (intro conjI) simp_all
qed

text \<open>
  Claim C2, counterexample: the regressor output 9 is stored as 900, not as
  \<open>round (clamp 9 0 8 * 100) = 800\<close>, and the forest example pixel carries that code with
  QA bit 1. The double nearest to 0.015 is in [0, 8]; its product with 100 rounds to the
  double 1.5, which is stored as 2, and decoding 2 misses the value by more than 0.005.
\<close>

theorem LAI_encode_above_800:
  "LAI_encode 9 = 900 \<and> \<not> unat (LAI_encode 9) \<le> 800
   \<and> LAI_encode 9 \<noteq> word_of_int (round (max 0 (min 8 (9::real)) * 100))
   \<and> getLAIImage_px (rf_const 9) [] hull_red5 ''LC08'' px_forest False
       = \<lparr>LAI = Some 900, QA = Some 2\<rparr>
   \<and> dbl d0015 = d0015 \<and> 0 \<le> d0015 \<and> d0015 \<le> 8
   \<and> dbl (d0015 * 100) = 3 / 2
   \<and> LAI_encode d0015 = 2
   \<and> \<not> \<bar>LAI_decode (LAI_encode d0015) - d0015\<bar> \<le> 0.005"
proof -
  have 1: "LAI_encode 9 = 900 \<and> \<not> unat (LAI_encode 9) \<le> 800
      \<and> LAI_encode 9 \<noteq> word_of_int (round (max 0 (min 8 (9::real)) * 100))"
    unfolding LAI_encode_900 by simp
  from 1 px_forest_lai_9 dbl_d0015_id d0015_err dbl_d0015 LAI_encode_d0015
  show ?thesis by (intro conjI) simp_all
qed

end
